theory Spec2Isabelle
  imports Complex_Main "HOL-Library.Log_Nat"
begin

section \<open>Data model (src/types)\<close>

text \<open>
  A JavaScript \<^verbatim>\<open>number\<close> that the program stores, compares or prints is the
  rational it denotes; a count is an integer. Where the source can produce \<^verbatim>\<open>NaN\<close>
  there (the result of \<^verbatim>\<open>parseInt\<close>, the quotient \<^verbatim>\<open>0 / 0\<close>) the case is written out.
  Arithmetic on numbers, that of \<^verbatim>\<open>getAnalysisStats\<close> and of the average confidence
  of the rendered document, is carried out in binary64, see the next section.
\<close>

type_synonym number = rat

datatype issue_state = StateOpen | StateClosed

record GitHubUser =
  login :: string
  avatar_url :: string

record GitHubLabel =
  label_id :: number
  name :: string
  color :: string
  description :: "string option"

record GitHubIssue =
  id' :: number
  number :: int
  title :: string
  body :: "string option"
  state :: issue_state
  created_at :: string
  updated_at :: string
  html_url :: string
  user :: GitHubUser
  labels :: "GitHubLabel list"
  assignees :: "GitHubUser list"
  comments :: int

datatype severity = Low | Medium | High | Critical

text \<open>\<^verbatim>\<open>issue_id\<close> is \<open>None\<close> when it is \<^verbatim>\<open>NaN\<close>.\<close>

record IssueAnalysis =
  issue_id :: "number option"
  is_critical :: bool
  severity_level :: severity
  reasoning :: string
  affected_functionality :: "string list"
  impact_description :: string
  confidence_score :: number

record AnalyzedIssue =
  github_issue :: GitHubIssue
  analysis :: IssueAnalysis

record Summary =
  most_critical_issues :: "string list"
  common_problems :: "string list"
  recommended_actions :: "string list"

record ComponentAnalysisReport =
  component_name :: string
  analysis_date :: string
  total_issues :: int
  critical_issues :: int
  high_priority_issues :: int
  issues :: "AnalyzedIssue list"
  summary :: Summary

record OpenAIIssueAnalysisRequest =
  component_name' :: string
  issue_title :: string
  issue_body :: string
  issue_labels :: "string list"
  issue_url :: string

section \<open>Shared predicates\<close>

text \<open>
  The two filter predicates that \<^verbatim>\<open>createReport\<close>, \<^verbatim>\<open>generateMarkdownReport\<close> and
  \<^verbatim>\<open>generateComponentSummary\<close> repeat:
  \<^verbatim>\<open>(a) => a.analysis.is_critical || a.analysis.severity_level === 'critical'\<close> and
  \<^verbatim>\<open>(a) => a.analysis.severity_level === 'high' && !a.analysis.is_critical\<close>.
\<close>

definition isCriticalItem :: "AnalyzedIssue \<Rightarrow> bool" where
  "isCriticalItem a = (is_critical (analysis a) \<or> severity_level (analysis a) = Critical)"

definition isHighPriorityItem :: "AnalyzedIssue \<Rightarrow> bool" where
  "isHighPriorityItem a = (severity_level (analysis a) = High \<and> \<not> is_critical (analysis a))"

section \<open>Binary64 arithmetic\<close>

text \<open>
  The value of a JavaScript \<^verbatim>\<open>number\<close> in arithmetic: a finite double, given by the
  rational it is, an infinity or \<^verbatim>\<open>NaN\<close>. The sign of a zero is not recorded; the
  program divides by a count only, which is never a negative zero.
\<close>

datatype double = Finite rat | PosInfinity | NegInfinity | NaN

text \<open>The nearest integer, a tie going to the even one.\<close>

definition roundHalfEven :: "rat \<Rightarrow> int" where
  "roundHalfEven y =
     (let f = \<lfloor>y\<rfloor>; r = y - of_int f
      in if r < 1 / 2 then f
         else if 1 / 2 < r then f + 1
         else if even f then f else f + 1)"

text \<open>The exponent \<open>e\<close> of a positive rational: \<open>2 powi e \<le> x < 2 powi (e + 1)\<close>.\<close>

definition binaryExponent :: "rat \<Rightarrow> int" where
  "binaryExponent x =
     (if 1 \<le> x then bitlen \<lfloor>x\<rfloor> - 1 else - bitlen (\<lceil>1 / x\<rceil> - 1))"

text \<open>
  Rounding of an exact result to binary64, to nearest with ties to even: 53 bits of
  significand, so the doubles of exponent \<open>e\<close> are spaced \<open>2 powi (e - 52)\<close> apart; below
  exponent -1022 the spacing stays that of the subnormals; a result that rounds to
  \<open>2 powi 1024\<close> or beyond is an infinity.
\<close>

definition roundDouble :: "rat \<Rightarrow> double" where
  "roundDouble x =
     (if x = 0 then Finite 0
      else
        (let e = max (binaryExponent \<bar>x\<bar>) (- 1022);
             ulp = 2 powi (e - 52);
             r = of_int (roundHalfEven (\<bar>x\<bar> / ulp)) * ulp
         in if 2 powi 1024 \<le> r then (if 0 < x then PosInfinity else NegInfinity)
            else Finite (sgn x * r)))"

text \<open>The double that holds an integer; it is the integer itself up to \<open>2 ^ 53\<close>.\<close>

definition doubleOfInt :: "int \<Rightarrow> double" where
  "doubleOfInt n = roundDouble (of_int n)"

fun negate :: "double \<Rightarrow> double" where
  "negate (Finite a) = Finite (- a)"
| "negate PosInfinity = NegInfinity"
| "negate NegInfinity = PosInfinity"
| "negate NaN = NaN"

text \<open>The operators \<^verbatim>\<open>+\<close>, \<^verbatim>\<open>*\<close> and \<^verbatim>\<open>/\<close> on numbers.\<close>

fun jsAdd :: "double \<Rightarrow> double \<Rightarrow> double" where
  "jsAdd (Finite a) (Finite b) = roundDouble (a + b)"
| "jsAdd NaN y = NaN"
| "jsAdd x NaN = NaN"
| "jsAdd PosInfinity NegInfinity = NaN"
| "jsAdd NegInfinity PosInfinity = NaN"
| "jsAdd (Finite a) y = y"
| "jsAdd x y = x"

fun jsMul :: "double \<Rightarrow> double \<Rightarrow> double" where
  "jsMul (Finite a) (Finite b) = roundDouble (a * b)"
| "jsMul NaN y = NaN"
| "jsMul x NaN = NaN"
| "jsMul (Finite a) y = (if a = 0 then NaN else if 0 < a then y else negate y)"
| "jsMul x (Finite b) = (if b = 0 then NaN else if 0 < b then x else negate x)"
| "jsMul PosInfinity y = y"
| "jsMul NegInfinity y = negate y"

fun jsDiv :: "double \<Rightarrow> double \<Rightarrow> double" where
  "jsDiv (Finite a) (Finite b) =
     (if b = 0 then (if a = 0 then NaN else if 0 < a then PosInfinity else NegInfinity)
      else roundDouble (a / b))"
| "jsDiv NaN y = NaN"
| "jsDiv x NaN = NaN"
| "jsDiv (Finite a) y = Finite 0"
| "jsDiv x (Finite b) = (if 0 \<le> b then x else negate x)"
| "jsDiv x y = NaN"

text \<open>
  \<^verbatim>\<open>Math.round\<close>: the nearest integer, a tie going up. The integer is a double, since
  a double of magnitude \<open>2 ^ 52\<close> or more is an integer already.
\<close>

fun Math_round :: "double \<Rightarrow> double" where
  "Math_round (Finite x) = Finite (of_int \<lfloor>x + 1 / 2\<rfloor>)"
| "Math_round x = x"

section \<open>JavaScript values, errors and the runtime\<close>

text \<open>
  A value as \<^verbatim>\<open>JSON.parse\<close> returns it, or as an object literal of the source builds
  it. \<open>JNaN\<close> is the number \<^verbatim>\<open>NaN\<close>, which no JSON text denotes and only \<^verbatim>\<open>parseInt\<close>
  produces. An object lists each key once.
\<close>

datatype js_value =
    JNull
  | JBool bool
  | JNum number
  | JNaN
  | JStr string
  | JArr "js_value list"
  | JObj "(string \<times> js_value) list"

text \<open>
  A thrown value: the name and the message of an \<^verbatim>\<open>Error\<close> object.
  \<^verbatim>\<open>new Error(m)\<close> is \<open>JsError ''Error'' m\<close>.
\<close>

datatype js_error = JsError (err_name: string) (err_message: string)

definition Error :: "string \<Rightarrow> js_error" where
  "Error m = JsError ''Error'' m"

text \<open>\<^verbatim>\<open>`${error}`\<close>, that is \<^verbatim>\<open>Error.prototype.toString\<close>.\<close>

definition errorString :: "js_error \<Rightarrow> string" where
  "errorString e =
     (if err_name e = [] then err_message e
      else if err_message e = [] then err_name e
      else err_name e @ '': '' @ err_message e)"

text \<open>
  The builtins of the runtime that the source calls and that are not part of the
  repository. \<open>now\<close> is what \<^verbatim>\<open>new Date().toISOString()\<close> returns;
  \<open>toLocaleDateString s\<close> and \<open>toISOString s\<close> stand for
  \<^verbatim>\<open>new Date(s).toLocaleDateString()\<close> and \<^verbatim>\<open>new Date(s).toISOString()\<close> (the latter
  throws on an invalid date); \<open>inTypeError f v\<close> is the \<^verbatim>\<open>TypeError\<close> that
  \<^verbatim>\<open>f in v\<close> throws when \<open>v\<close> is not an object; \<open>parseInt\<close> returns \<open>None\<close> for
  \<^verbatim>\<open>NaN\<close>; \<open>toFixed1 x\<close> is \<^verbatim>\<open>x.toFixed(1)\<close>.
\<close>

record runtime =
  now :: string
  toLocaleDateString :: "string \<Rightarrow> string"
  toISOString :: "string \<Rightarrow> js_error + string"
  numberToString :: "number \<Rightarrow> string"
  toFixed1 :: "double \<Rightarrow> string"
  parseInt :: "string \<Rightarrow> number option"
  JSON_parse :: "string \<Rightarrow> js_error + js_value"
  JSON_stringify :: "ComponentAnalysisReport \<Rightarrow> string"
  inTypeError :: "string \<Rightarrow> js_value \<Rightarrow> js_error"
  path_dirname :: "string \<Rightarrow> string"

definition nl :: string where
  "nl = [CHR 0x0A]"

fun join :: "string \<Rightarrow> string list \<Rightarrow> string" where
  "join sep [] = []"
| "join sep [x] = x"
| "join sep (x # y # ys) = x @ sep @ join sep (y # ys)"

text \<open>\<^verbatim>\<open>s.split(c)\<close> for a one-character separator, and \<^verbatim>\<open>xs.pop()\<close>.\<close>

fun split :: "char \<Rightarrow> string \<Rightarrow> string list" where
  "split c [] = [[]]"
| "split c (x # xs) =
     (if x = c then [] # split c xs
      else (case split c xs of
              [] \<Rightarrow> [[x]]
            | s # ss \<Rightarrow> (x # s) # ss))"

definition pop :: "'a list \<Rightarrow> 'a option" where
  "pop xs = (if xs = [] then None else Some (last xs))"

text \<open>\<^verbatim>\<open>s || d\<close> on strings: the empty string is falsy.\<close>

definition orElse :: "string \<Rightarrow> string \<Rightarrow> string" where
  "orElse s d = (if s = [] then d else s)"

text \<open>
  \<^verbatim>\<open>xs.slice(start, stop)\<close>: a negative bound counts from the end, and both bounds are
  clamped to the array.
\<close>

definition slice :: "int \<Rightarrow> int \<Rightarrow> 'a list \<Rightarrow> 'a list" where
  "slice start stop xs =
     (let n = int (length xs);
          from = (if start < 0 then max (n + start) 0 else min start n);
          to = (if stop < 0 then max (n + stop) 0 else min stop n)
      in take (nat (to - from)) (drop (nat from) xs))"

text \<open>
  \<^verbatim>\<open>String(v)\<close>, which a template literal applies to \<open>v\<close>. \<open>None\<close> is
  \<^verbatim>\<open>undefined\<close>.
\<close>

fun jsString :: "(number \<Rightarrow> string) \<Rightarrow> js_value \<Rightarrow> string" where
  "jsString f JNull = ''null''"
| "jsString f (JBool b) = (if b then ''true'' else ''false'')"
| "jsString f (JNum q) = f q"
| "jsString f JNaN = ''NaN''"
| "jsString f (JStr s) = s"
| "jsString f (JArr xs) = join '','' (map (\<lambda>x. if x = JNull then [] else jsString f x) xs)"
| "jsString f (JObj kvs) = ''[object Object]''"

definition templateString :: "runtime \<Rightarrow> js_value option \<Rightarrow> string" where
  "templateString rt v =
     (case v of None \<Rightarrow> ''undefined'' | Some x \<Rightarrow> jsString (numberToString rt) x)"

text \<open>
  Property access \<^verbatim>\<open>v.key\<close> on a parsed value that is not \<^verbatim>\<open>null\<close>; \<open>None\<close> is
  \<^verbatim>\<open>undefined\<close>.
\<close>

definition getProp :: "string \<Rightarrow> js_value \<Rightarrow> js_value option" where
  "getProp key v = (case v of JObj kvs \<Rightarrow> map_of kvs key | _ \<Rightarrow> None)"

text \<open>
  \<^verbatim>\<open>field in v\<close>, for a field name that is neither inherited from a prototype nor an
  index or the length of an array (none of the names the source asks for is).
\<close>

definition hasField :: "runtime \<Rightarrow> string \<Rightarrow> js_value \<Rightarrow> js_error + bool" where
  "hasField rt field v =
     (case v of
        JObj kvs \<Rightarrow> Inr (field \<in> set (map fst kvs))
      | JArr xs \<Rightarrow> Inr False
      | _ \<Rightarrow> Inl (inTypeError rt field v))"

section \<open>The classification service (OpenAIService)\<close>

record chat_message =
  role :: string
  content :: string

record chat_params =
  model :: string
  messages :: "chat_message list"
  response_format :: string
  temperature :: number

record completion_message =
  msg_content :: "string option"

record completion_choice =
  message :: "completion_message option"

record chat_completion =
  choices :: "completion_choice list"

text \<open>
  One call of \<^verbatim>\<open>this.client.chat.completions.create\<close>: it returns a completion or
  throws.
\<close>

type_synonym chat_call = "chat_params \<Rightarrow> js_error + chat_completion"

definition systemPrompt :: "string \<Rightarrow> string" where
  \<open>systemPrompt component =
     join nl
      [''You are an expert frontend developer and component library maintainer. Your task is to analyze GitHub issues related to the ''
         @ component
         @ '' shadcn/ui only and determine their criticality for basic component usage and performance.'',
       [],
       ''A CRITICAL issue is one that:'',
       ''- Prevents the component from rendering or functioning at all'',
       ''- Causes the component to crash the application'',
       ''- Makes the component completely unusable for its primary purpose'',
       ''- Causes severe performance issues that make the component unusable'',
       ''- Introduces security vulnerabilities'',
       ''- Breaks core accessibility features that make the component unusable for users with disabilities'',
       [],
       ''A HIGH priority issue is one that:'',
       ''- Significantly impacts the component's functionality but doesn't prevent basic usage'',
       ''- Causes noticeable performance degradation'',
       ''- Affects important but not core features'',
       ''- Has workarounds but they are complex or hacky'',
       [],
       ''A MEDIUM priority issue is one that:'',
       ''- Affects edge cases or less common use cases'',
       ''- Has minor performance impacts'',
       ''- Affects styling or visual appearance in non-breaking ways'',
       ''- Has simple workarounds'',
       [],
       ''A LOW priority issue is one that:'',
       ''- Affects very specific edge cases'',
       ''- Is more of an enhancement than a bug'',
       ''- Has minimal impact on functionality'',
       ''- Is primarily cosmetic'',
       [],
       ''Respond with a JSON object matching the IssueAnalysis interface.'']\<close>

definition buildAnalysisPrompt :: "OpenAIIssueAnalysisRequest \<Rightarrow> string" where
  \<open>buildAnalysisPrompt request =
     join nl
      [[],
       ''Analyze this GitHub issue for the '' @ component_name' request @ '' component:'',
       [],
       ''**Issue Title:** '' @ issue_title request,
       [],
       ''**Issue URL:** '' @ issue_url request,
       [],
       ''**Labels:** '' @ orElse (join '', '' (issue_labels request)) ''None'',
       [],
       ''**Issue Description:**'',
       orElse (issue_body request) ''No description provided'',
       [],
       ''Please analyze this issue and respond with a JSON object containing:'',
       ''{'',
       ''  "issue_id": number, // Extract from URL'',
       ''  "is_critical": boolean, // true if this prevents basic component usage'',
       ''  "severity_level": "low" | "medium" | "high" | "critical",'',
       ''  "reasoning": "string", // Detailed explanation of your assessment'',
       ''  "affected_functionality": ["array", "of", "affected", "features"],'',
       ''  "impact_description": "string", // How this affects users'',
       ''  "confidence_score": number // 0-100, how confident you are in this assessment'',
       ''}'',
       [],
       ''Focus on whether this issue prevents the component from working for its intended purpose or causes significant usability problems.'']\<close>

definition required :: "string list" where
  "required =
     [''issue_id'', ''is_critical'', ''severity_level'', ''reasoning'',
      ''affected_functionality'', ''impact_description'', ''confidence_score'']"

text \<open>
  \<^verbatim>\<open>required.filter((field) => !(field in analysis))\<close>: the first \<^verbatim>\<open>in\<close> that throws
  ends the filter.
\<close>

fun missingFields :: "runtime \<Rightarrow> js_value \<Rightarrow> string list \<Rightarrow> js_error + string list" where
  "missingFields rt analysis' [] = Inr []"
| "missingFields rt analysis' (field # others) =
     (case hasField rt field analysis' of
        Inl e \<Rightarrow> Inl e
      | Inr present \<Rightarrow>
          (case missingFields rt analysis' others of
             Inl e \<Rightarrow> Inl e
           | Inr rest \<Rightarrow> Inr (if present then rest else field # rest)))"

definition validSeverity :: "js_value option \<Rightarrow> bool" where
  "validSeverity v =
     (case v of
        Some (JStr s) \<Rightarrow> s \<in> set [''low'', ''medium'', ''high'', ''critical'']
      | _ \<Rightarrow> False)"

text \<open>
  The third check of \<^verbatim>\<open>validateAnalysis\<close>, negated: a value of type number that is
  neither below 0 nor above 100 (both comparisons are false on \<^verbatim>\<open>NaN\<close>).
\<close>

definition validConfidence :: "js_value option \<Rightarrow> bool" where
  "validConfidence v =
     (case v of
        Some (JNum q) \<Rightarrow> \<not> (q < 0 \<or> q > 100)
      | Some JNaN \<Rightarrow> True
      | _ \<Rightarrow> False)"

definition validateAnalysis :: "runtime \<Rightarrow> js_value \<Rightarrow> js_error + unit" where
  "validateAnalysis rt analysis' =
     (case missingFields rt analysis' required of
        Inl e \<Rightarrow> Inl e
      | Inr missing \<Rightarrow>
          if length missing > 0 then
            Inl (Error (''Missing required fields in analysis: '' @ join '', '' missing))
          else if \<not> validSeverity (getProp ''severity_level'' analysis') then
            Inl (Error (''Invalid severity_level: ''
                         @ templateString rt (getProp ''severity_level'' analysis')))
          else if \<not> validConfidence (getProp ''confidence_score'' analysis') then
            Inl (Error (''Invalid confidence_score: ''
                         @ templateString rt (getProp ''confidence_score'' analysis')))
          else Inr ())"

text \<open>\<^verbatim>\<open>completion.choices[0]?.message?.content\<close>; \<open>None\<close> is \<^verbatim>\<open>undefined\<close>.\<close>

definition completionContent :: "chat_completion \<Rightarrow> string option" where
  "completionContent completion =
     (case choices completion of
        [] \<Rightarrow> None
      | choice # _ \<Rightarrow> (case message choice of None \<Rightarrow> None | Some m \<Rightarrow> msg_content m))"

text \<open>\<^verbatim>\<open>parseInt(request.issue_url.split('/').pop() || '0')\<close> as a value.\<close>

definition issueIdOfUrl :: "runtime \<Rightarrow> string \<Rightarrow> js_value" where
  "issueIdOfUrl rt url =
     (case parseInt rt (case pop (split CHR ''/'' url) of
                          None \<Rightarrow> ''0''
                        | Some s \<Rightarrow> orElse s ''0'') of
        None \<Rightarrow> JNaN
      | Some n \<Rightarrow> JNum n)"

text \<open>The object literal that the \<^verbatim>\<open>catch\<close> block of \<^verbatim>\<open>analyzeIssue\<close> returns.\<close>

definition analyzeIssueFallback ::
  "runtime \<Rightarrow> OpenAIIssueAnalysisRequest \<Rightarrow> js_error \<Rightarrow> js_value" where
  "analyzeIssueFallback rt request error =
     JObj [(''issue_id'', issueIdOfUrl rt (issue_url request)),
           (''is_critical'', JBool False),
           (''severity_level'', JStr ''medium''),
           (''reasoning'', JStr (''Failed to analyze with OpenAI: '' @ errorString error
                                  @ ''. Manual review required.'')),
           (''affected_functionality'', JArr [JStr ''unknown'']),
           (''impact_description'', JStr ''Unable to determine impact due to analysis failure''),
           (''confidence_score'', JNum 0)]"

definition analysisParams :: "string \<Rightarrow> OpenAIIssueAnalysisRequest \<Rightarrow> chat_params" where
  "analysisParams model' request =
     \<lparr> model = model',
       messages =
         [\<lparr> role = ''system'', content = systemPrompt (component_name' request) \<rparr>,
          \<lparr> role = ''user'', content = buildAnalysisPrompt request \<rparr>],
       response_format = ''json_object'',
       temperature = 1 / 10 \<rparr>"

text \<open>The \<^verbatim>\<open>try\<close> block of \<^verbatim>\<open>analyzeIssue\<close>; \<open>Inl\<close> is a throw.\<close>

definition analyzeIssueTry ::
  "runtime \<Rightarrow> chat_call \<Rightarrow> string \<Rightarrow> OpenAIIssueAnalysisRequest \<Rightarrow> js_error + js_value" where
  "analyzeIssueTry rt create model' request =
     (case create (analysisParams model' request) of
        Inl e \<Rightarrow> Inl e
      | Inr completion \<Rightarrow>
          (case completionContent completion of
             None \<Rightarrow> Inl (Error ''No response content from OpenAI'')
           | Some content' \<Rightarrow>
               if content' = [] then Inl (Error ''No response content from OpenAI'')
               else
                 (case JSON_parse rt content' of
                    Inl e \<Rightarrow> Inl e
                  | Inr analysis' \<Rightarrow>
                      (case validateAnalysis rt analysis' of
                         Inl e \<Rightarrow> Inl e
                       | Inr _ \<Rightarrow> Inr analysis'))))"

text \<open>
  \<^verbatim>\<open>analyzeIssue\<close>: \<open>Inr\<close> is the value the promise is fulfilled with, \<open>Inl\<close> the
  reason it is rejected with.
\<close>

definition analyzeIssue ::
  "runtime \<Rightarrow> chat_call \<Rightarrow> string \<Rightarrow> OpenAIIssueAnalysisRequest \<Rightarrow> js_error + js_value" where
  "analyzeIssue rt create model' request =
     (case analyzeIssueTry rt create model' request of
        Inr analysis' \<Rightarrow> Inr analysis'
      | Inl error \<Rightarrow> Inr (analyzeIssueFallback rt request error))"

subsection \<open>Batches (analyzeIssuesBatch)\<close>

datatype 'a settled = Fulfilled 'a | Rejected js_error

definition settle :: "js_error + 'a \<Rightarrow> 'a settled" where
  "settle p = (case p of Inr v \<Rightarrow> Fulfilled v | Inl reason \<Rightarrow> Rejected reason)"

text \<open>
  \<^verbatim>\<open>Promise.allSettled(promises)\<close>. The promises run concurrently: promise \<open>k\<close> settles
  after \<open>latency k\<close>, so they complete in the order of their latencies, each writing its
  outcome into the slot of its own index; the result is read when all have settled.
\<close>

definition allSettled :: "(nat \<Rightarrow> nat) \<Rightarrow> (js_error + 'a) list \<Rightarrow> 'a settled list" where
  "allSettled latency promises =
     (let completion = sort_key latency [0..<length promises];
          slots = foldl (\<lambda>slots' k. slots'[k := Some (settle (promises ! k))])
                    (replicate (length promises) None) completion
      in List.map_filter (\<lambda>slot. slot) slots)"

definition batchSize :: nat where
  "batchSize = 5"

text \<open>The object literal that the batch pushes for a rejected promise.\<close>

definition batchFallback :: "runtime \<Rightarrow> OpenAIIssueAnalysisRequest \<Rightarrow> js_error \<Rightarrow> js_value" where
  "batchFallback rt request reason =
     JObj [(''issue_id'', issueIdOfUrl rt (issue_url request)),
           (''is_critical'', JBool False),
           (''severity_level'', JStr ''medium''),
           (''reasoning'', JStr (''Analysis failed: '' @ errorString reason)),
           (''affected_functionality'', JArr [JStr ''unknown'']),
           (''impact_description'', JStr ''Unable to determine impact due to analysis failure''),
           (''confidence_score'', JNum 0)]"

text \<open>The callback of \<^verbatim>\<open>batchResults.forEach\<close>: the value pushed onto \<^verbatim>\<open>results\<close>.\<close>

definition batchEntry ::
  "runtime \<Rightarrow> OpenAIIssueAnalysisRequest list \<Rightarrow> js_value settled \<Rightarrow> nat \<Rightarrow> js_value" where
  "batchEntry rt batch result index =
     (case result of
        Fulfilled v \<Rightarrow> v
      | Rejected reason \<Rightarrow> batchFallback rt (batch ! index) reason)"

text \<open>
  What the loop does besides computing \<^verbatim>\<open>results\<close>: \<open>Calls k\<close> is a chunk of \<open>k\<close>
  calls issued concurrently and awaited, \<open>Sleep ms\<close> the \<^verbatim>\<open>setTimeout\<close> delay.
\<close>

datatype batch_event = Calls nat | Sleep nat

text \<open>
  The \<^verbatim>\<open>for\<close> loop of \<^verbatim>\<open>analyzeIssuesBatch\<close>. \<open>client k\<close> is the behaviour of the
  backend on the call made for the request at position \<open>k\<close> of the input, and
  \<open>latency k\<close> the time that call takes.
\<close>

function analyzeIssuesBatchLoop ::
  "runtime \<Rightarrow> (nat \<Rightarrow> chat_call) \<Rightarrow> (nat \<Rightarrow> nat) \<Rightarrow> string
     \<Rightarrow> OpenAIIssueAnalysisRequest list \<Rightarrow> nat \<Rightarrow> js_value list \<Rightarrow> batch_event list
     \<Rightarrow> js_value list \<times> batch_event list" where
  "analyzeIssuesBatchLoop rt client latency model' requests i results events =
     (if i < length requests then
        let batch = slice (int i) (int (i + batchSize)) requests;
            batchPromises =
              map (\<lambda>(request, k). analyzeIssue rt (client (i + k)) model' request)
                (zip batch [0..<length batch]);
            batchResults = allSettled (\<lambda>k. latency (i + k)) batchPromises;
            results' =
              results @ map (\<lambda>(result, index). batchEntry rt batch result index)
                          (zip batchResults [0..<length batchResults]);
            events' =
              events @ [Calls (length batch)]
                @ (if i + batchSize < length requests then [Sleep 1000] else [])
        in analyzeIssuesBatchLoop rt client latency model' requests (i + batchSize)
             results' events'
      else (results, events))"
  by pat_completeness auto
termination
  by (relation "measure (\<lambda>(rt, client, latency, model', requests, i, results, events).
                           length requests - i)")
     (auto simp: batchSize_def)

declare analyzeIssuesBatchLoop.simps [simp del]

definition analyzeIssuesBatchRun ::
  "runtime \<Rightarrow> (nat \<Rightarrow> chat_call) \<Rightarrow> (nat \<Rightarrow> nat) \<Rightarrow> string
     \<Rightarrow> OpenAIIssueAnalysisRequest list \<Rightarrow> js_value list \<times> batch_event list" where
  "analyzeIssuesBatchRun rt client latency model' requests =
     analyzeIssuesBatchLoop rt client latency model' requests 0 [] []"

definition analyzeIssuesBatch ::
  "runtime \<Rightarrow> (nat \<Rightarrow> chat_call) \<Rightarrow> (nat \<Rightarrow> nat) \<Rightarrow> string
     \<Rightarrow> OpenAIIssueAnalysisRequest list \<Rightarrow> js_value list" where
  "analyzeIssuesBatch rt client latency model' requests =
     fst (analyzeIssuesBatchRun rt client latency model' requests)"

text \<open>
  The schedule the specification describes for \<open>n\<close> requests: chunks of five calls, a
  delay of 1000 ms between two consecutive chunks, and none after the last.
\<close>

function chunkSchedule :: "nat \<Rightarrow> batch_event list" where
  "chunkSchedule n =
     (if n = 0 then []
      else if n \<le> 5 then [Calls n]
      else Calls 5 # Sleep 1000 # chunkSchedule (n - 5))"
  by pat_completeness auto
termination
  by (relation "measure (\<lambda>n. n)") auto

declare chunkSchedule.simps [simp del]

subsection \<open>The summary rollup (generateComponentSummary)\<close>

definition summaryPrompt :: "runtime \<Rightarrow> string \<Rightarrow> AnalyzedIssue list \<Rightarrow> AnalyzedIssue list \<Rightarrow> string" where
  "summaryPrompt rt componentName criticalAnalyses highPriorityAnalyses =
     join nl
      [[],
       ''Analyze the following component issue analyses for the '' @ componentName
         @ '' component and provide a summary:'',
       [],
       ''Critical Issues ('' @ numberToString rt (of_nat (length criticalAnalyses)) @ ''):'',
       join nl (map (\<lambda>a. ''- '' @ title (github_issue a) @ '': '' @ reasoning (analysis a))
                  criticalAnalyses),
       [],
       ''High Priority Issues ('' @ numberToString rt (of_nat (length highPriorityAnalyses))
         @ ''):'',
       join nl (map (\<lambda>a. ''- '' @ title (github_issue a) @ '': '' @ reasoning (analysis a))
                  highPriorityAnalyses),
       [],
       ''Please provide:'',
       ''1. most_critical_issues: Array of the top 3-5 most critical issue titles/descriptions'',
       ''2. common_problems: Array of common problem patterns you notice'',
       ''3. recommended_actions: Array of recommended actions for developers using this component'',
       [],
       ''Respond with a JSON object.'']"

definition summaryParams :: "string \<Rightarrow> string \<Rightarrow> chat_params" where
  "summaryParams model' prompt =
     \<lparr> model = model',
       messages =
         [\<lparr> role = ''system'',
            content = ''You are an expert frontend developer providing actionable insights about component issues. Be concise and practical.'' \<rparr>,
          \<lparr> role = ''user'', content = prompt \<rparr>],
       response_format = ''json_object'',
       temperature = 2 / 10 \<rparr>"

text \<open>The \<^verbatim>\<open>try\<close> block of \<^verbatim>\<open>generateComponentSummary\<close>.\<close>

definition generateComponentSummaryTry ::
  "runtime \<Rightarrow> chat_call \<Rightarrow> string \<Rightarrow> string \<Rightarrow> js_error + js_value" where
  "generateComponentSummaryTry rt create model' prompt =
     (case create (summaryParams model' prompt) of
        Inl e \<Rightarrow> Inl e
      | Inr completion \<Rightarrow>
          (case completionContent completion of
             None \<Rightarrow> Inl (Error ''No response content from OpenAI'')
           | Some content' \<Rightarrow>
               if content' = [] then Inl (Error ''No response content from OpenAI'')
               else JSON_parse rt content'))"

text \<open>The object literal that the \<^verbatim>\<open>catch\<close> block of \<^verbatim>\<open>generateComponentSummary\<close> returns.\<close>

definition summaryFallback :: "AnalyzedIssue list \<Rightarrow> js_value" where
  "summaryFallback criticalAnalyses =
     JObj [(''most_critical_issues'',
              JArr (map (\<lambda>a. JStr (title (github_issue a))) (slice 0 3 criticalAnalyses))),
           (''common_problems'',
              JArr [JStr ''Unable to analyze common problems due to API error'']),
           (''recommended_actions'',
              JArr [JStr ''Manual review of issues recommended due to analysis failure''])]"

definition generateComponentSummary ::
  "runtime \<Rightarrow> chat_call \<Rightarrow> string \<Rightarrow> string \<Rightarrow> AnalyzedIssue list \<Rightarrow> js_error + js_value" where
  "generateComponentSummary rt create model' componentName analyses =
     (let criticalAnalyses = filter isCriticalItem analyses;
          highPriorityAnalyses = filter (\<lambda>a. severity_level (analysis a) = High) analyses;
          prompt = summaryPrompt rt componentName criticalAnalyses highPriorityAnalyses
      in case generateComponentSummaryTry rt create model' prompt of
           Inr parsed \<Rightarrow> Inr parsed
         | Inl error \<Rightarrow> Inr (summaryFallback criticalAnalyses))"

section \<open>The issue search (GitHubService)\<close>

text \<open>
  An item of the search response: the fields \<^verbatim>\<open>transformIssue\<close> reads, and
  \<^verbatim>\<open>pull_request\<close>, which the response sets on pull requests only.
\<close>

record SearchItem = GitHubIssue +
  pull_request :: "string option"

record search_params =
  q :: string
  sort' :: string
  order :: string
  per_page :: int

text \<open>
  One call of \<^verbatim>\<open>octokit.rest.search.issuesAndPullRequests\<close>: it returns the items of
  the response or throws.
\<close>

type_synonym search_call = "search_params \<Rightarrow> js_error + SearchItem list"

record SearchOptions =
  opt_maxIssues :: "int option"
  opt_includeClosedIssues :: "bool option"
  opt_state :: "string option"

definition transformIssue :: "SearchItem \<Rightarrow> GitHubIssue" where
  "transformIssue item =
     \<lparr> id' = id' item,
       number = number item,
       title = title item,
       body = body item,
       state = state item,
       created_at = created_at item,
       updated_at = updated_at item,
       html_url = html_url item,
       user = \<lparr> login = login (user item), avatar_url = avatar_url (user item) \<rparr>,
       labels = map (\<lambda>label. \<lparr> label_id = label_id label, name = name label,
                                color = color label, description = description label \<rparr>)
                  (labels item),
       assignees = map (\<lambda>assignee. \<lparr> login = login assignee,
                                      avatar_url = avatar_url assignee \<rparr>)
                     (assignees item),
       comments = comments item \<rparr>"

definition isLowerCase :: "char \<Rightarrow> bool" where
  "isLowerCase c = (97 \<le> (of_char c :: nat) \<and> (of_char c :: nat) \<le> 122)"

definition isUpperCase :: "char \<Rightarrow> bool" where
  "isUpperCase c = (65 \<le> (of_char c :: nat) \<and> (of_char c :: nat) \<le> 90)"

text \<open>\<^verbatim>\<open>\s\<close> or an underscore, on ASCII.\<close>

definition isSeparator :: "char \<Rightarrow> bool" where
  "isSeparator c = ((of_char c :: nat) \<in> {9, 10, 11, 12, 13, 32} \<or> c = CHR ''_'')"

text \<open>\<^verbatim>\<open>.replace(/([a-z])([A-Z])/g, '$1-$2')\<close>\<close>

fun hyphenateCamel :: "string \<Rightarrow> string" where
  "hyphenateCamel (a # b # rest) =
     (if isLowerCase a \<and> isUpperCase b then a # CHR ''-'' # hyphenateCamel (b # rest)
      else a # hyphenateCamel (b # rest))"
| "hyphenateCamel cs = cs"

text \<open>\<^verbatim>\<open>.replace(/[\s_]+/g, '-')\<close>; the flag says that a run of separators is open.\<close>

fun hyphenateSeparators :: "bool \<Rightarrow> string \<Rightarrow> string" where
  "hyphenateSeparators inRun [] = []"
| "hyphenateSeparators inRun (c # cs) =
     (if isSeparator c then
        (if inRun then hyphenateSeparators True cs
         else CHR ''-'' # hyphenateSeparators True cs)
      else c # hyphenateSeparators False cs)"

text \<open>\<^verbatim>\<open>.toLowerCase()\<close>, on ASCII.\<close>

definition toLowerCase :: "string \<Rightarrow> string" where
  "toLowerCase s = map (\<lambda>c. if isUpperCase c then char_of ((of_char c :: nat) + 32) else c) s"

definition toKebabCase :: "string \<Rightarrow> string" where
  "toKebabCase str = toLowerCase (hyphenateSeparators False (hyphenateCamel str))"

text \<open>
  \<^verbatim>\<open>buildSearchQueries\<close>, which \<^verbatim>\<open>searchComponentIssues\<close> no longer calls (the call
  is commented out there).
\<close>

definition buildSearchQueries :: "string \<Rightarrow> string \<Rightarrow> string list" where
  \<open>buildSearchQueries componentName state' =
     (let baseQuery = ''repo:shadcn-ui/ui is:issue state:'' @ state'
      in [baseQuery @ '' "'' @ componentName @ ''" in:title'',
          baseQuery @ '' "'' @ componentName @ ''" in:body'',
          baseQuery @ '' "'' @ toKebabCase componentName @ ''" in:title'',
          baseQuery @ '' "'' @ toKebabCase componentName @ ''" in:body'',
          baseQuery @ '' "'' @ componentName @ '' component"'',
          baseQuery @ '' "'' @ componentName @ ''Component"'',
          baseQuery @ '' "'' @ componentName @ ''" label:bug'',
          baseQuery @ '' "'' @ componentName @ ''" "not working"'',
          baseQuery @ '' "'' @ componentName @ ''" "broken"'',
          baseQuery @ '' "'' @ componentName @ ''" "issue"'',
          baseQuery @ '' "'' @ componentName @ ''" "slow"'',
          baseQuery @ '' "'' @ componentName @ ''" "performance"'',
          baseQuery @ '' "'' @ componentName @ ''" "accessibility"'',
          baseQuery @ '' "'' @ componentName @ ''" "a11y"''])\<close>

text \<open>
  The value of the local \<^verbatim>\<open>state\<close> of \<^verbatim>\<open>searchComponentIssues\<close>:
  \<^verbatim>\<open>options.state || (includeClosedIssues ? 'all' : 'open')\<close>, with
  \<^verbatim>\<open>includeClosedIssues\<close> defaulting to false.
\<close>

definition searchState :: "SearchOptions \<Rightarrow> string" where
  "searchState options =
     (let includeClosedIssues =
            (case opt_includeClosedIssues options of None \<Rightarrow> False | Some b \<Rightarrow> b)
      in orElse (case opt_state options of None \<Rightarrow> [] | Some s \<Rightarrow> s)
           (if includeClosedIssues then ''all'' else ''open''))"

text \<open>The value of the local \<^verbatim>\<open>searchQueries\<close> of \<^verbatim>\<open>searchComponentIssues\<close>.\<close>

definition searchQueries :: "string \<Rightarrow> string list" where
  "searchQueries componentName = [''repo:shadcn-ui/ui is:issue state:open '' @ componentName]"

text \<open>
  The \<^verbatim>\<open>for\<close> loop over the queries. The filter runs over the whole response before
  the map adds the numbers it kept to \<^verbatim>\<open>seenIssues\<close>.
\<close>

fun searchLoop ::
  "search_call \<Rightarrow> int \<Rightarrow> string list \<Rightarrow> GitHubIssue list \<Rightarrow> int set
     \<Rightarrow> js_error + GitHubIssue list" where
  "searchLoop search maxIssues [] allIssues seenIssues = Inr allIssues"
| "searchLoop search maxIssues (query # queries) allIssues seenIssues =
     (case search \<lparr> q = query, sort' = ''updated'', order = ''desc'',
                     per_page = min maxIssues 100 \<rparr> of
        Inl e \<Rightarrow> Inl e
      | Inr items \<Rightarrow>
          (let kept = filter (\<lambda>item. pull_request item = None
                                      \<and> number item \<notin> seenIssues) items;
               seenIssues' = seenIssues \<union> set (map number kept);
               allIssues' = allIssues @ map transformIssue kept
           in if int (length allIssues') \<ge> maxIssues then Inr allIssues'
              else searchLoop search maxIssues queries allIssues' seenIssues'))"

definition searchComponentIssues ::
  "search_call \<Rightarrow> string \<Rightarrow> SearchOptions \<Rightarrow> js_error + GitHubIssue list" where
  "searchComponentIssues search componentName options =
     (let maxIssues = (case opt_maxIssues options of None \<Rightarrow> 100 | Some m \<Rightarrow> m);
          state' = searchState options
      in case searchLoop search maxIssues (searchQueries componentName) [] {} of
           Inr allIssues \<Rightarrow> Inr (slice 0 maxIssues allIssues)
         | Inl error \<Rightarrow>
             Inl (Error (''Failed to search GitHub issues: '' @ errorString error)))"

section \<open>Report construction (ShadcnIssueAnalyzer.createReport)\<close>

text \<open>\<open>now rt\<close> is the one clock read of \<^verbatim>\<open>createReport\<close>.\<close>

definition createReport ::
  "runtime \<Rightarrow> string \<Rightarrow> GitHubIssue list \<Rightarrow> AnalyzedIssue list \<Rightarrow> Summary
     \<Rightarrow> ComponentAnalysisReport" where
  "createReport rt componentName issues' analyses summary' =
     (let criticalIssues = length (filter isCriticalItem analyses);
          highPriorityIssues = length (filter isHighPriorityItem analyses)
      in \<lparr> component_name = componentName,
           analysis_date = now rt,
           total_issues = int (length issues'),
           critical_issues = int criticalIssues,
           high_priority_issues = int highPriorityIssues,
           issues = analyses,
           summary = summary' \<rparr>)"

section \<open>The analyzer (ShadcnIssueAnalyzer)\<close>

text \<open>
  The analyzer receives the objects of the classification service at the types
  \<^verbatim>\<open>IssueAnalysis\<close> and of the summary; TypeScript checks nothing at run time. The
  model reads an object at its declared type: a flag by its truthiness, a text or a list
  element as a template literal prints it. \<^verbatim>\<open>validateAnalysis\<close> has checked the severity
  token and the confidence score of every object that reaches \<open>asIssueAnalysis\<close>, so
  the last branch of each of these two readings is never taken there. A list field that
  holds no array has no reading: the result is \<open>None\<close>. The analyzer passes such an
  object on as it is, inside a report that is not of the declared type; what the renderer
  does with that report (it throws when it reads the \<^verbatim>\<open>length\<close> of a list that is
  \<^verbatim>\<open>undefined\<close> or \<^verbatim>\<open>null\<close>) is not followed here.
\<close>

definition truthy :: "js_value option \<Rightarrow> bool" where
  "truthy v =
     (case v of
        None \<Rightarrow> False
      | Some JNull \<Rightarrow> False
      | Some (JBool b) \<Rightarrow> b
      | Some (JNum n) \<Rightarrow> n \<noteq> 0
      | Some JNaN \<Rightarrow> False
      | Some (JStr s) \<Rightarrow> s \<noteq> []
      | Some (JArr xs) \<Rightarrow> True
      | Some (JObj kvs) \<Rightarrow> True)"

definition asStringList :: "runtime \<Rightarrow> js_value option \<Rightarrow> string list option" where
  "asStringList rt v =
     (case v of
        Some (JArr xs) \<Rightarrow> Some (map (jsString (numberToString rt)) xs)
      | _ \<Rightarrow> None)"

definition asSeverity :: "js_value option \<Rightarrow> severity" where
  "asSeverity v =
     (if v = Some (JStr ''low'') then Low
      else if v = Some (JStr ''high'') then High
      else if v = Some (JStr ''critical'') then Critical
      else Medium)"

definition asIssueAnalysis :: "runtime \<Rightarrow> js_value \<Rightarrow> IssueAnalysis option" where
  "asIssueAnalysis rt v =
     (case asStringList rt (getProp ''affected_functionality'' v) of
        None \<Rightarrow> None
      | Some functionality \<Rightarrow>
          Some \<lparr> issue_id =
                   (case getProp ''issue_id'' v of Some (JNum n) \<Rightarrow> Some n | _ \<Rightarrow> None),
                 is_critical = truthy (getProp ''is_critical'' v),
                 severity_level = asSeverity (getProp ''severity_level'' v),
                 reasoning = templateString rt (getProp ''reasoning'' v),
                 affected_functionality = functionality,
                 impact_description = templateString rt (getProp ''impact_description'' v),
                 confidence_score =
                   (case getProp ''confidence_score'' v of Some (JNum n) \<Rightarrow> n | _ \<Rightarrow> 0) \<rparr>)"

definition asSummary :: "runtime \<Rightarrow> js_value \<Rightarrow> Summary option" where
  "asSummary rt v =
     (case asStringList rt (getProp ''most_critical_issues'' v) of
        None \<Rightarrow> None
      | Some critical \<Rightarrow>
          (case asStringList rt (getProp ''common_problems'' v) of
             None \<Rightarrow> None
           | Some problems \<Rightarrow>
               (case asStringList rt (getProp ''recommended_actions'' v) of
                  None \<Rightarrow> None
                | Some actions \<Rightarrow>
                    Some \<lparr> most_critical_issues = critical,
                           common_problems = problems,
                           recommended_actions = actions \<rparr>)))"

text \<open>
  The services behind the analyzer: the search call, the classification call made for
  the request at each position with the time it takes, the call of the summary rollup,
  and the configured model.
\<close>

record backends =
  searchCall :: search_call
  analysisCall :: "nat \<Rightarrow> chat_call"
  callLatency :: "nat \<Rightarrow> nat"
  summaryCall :: chat_call
  openaiModel :: string

record AnalyzeOptions =
  component :: string
  maxIssues :: "int option"
  includeClosedIssues :: "bool option"
  outputFile :: "string option"
  verbose :: "bool option"

text \<open>
  \<^verbatim>\<open>analyzeIssuesWithOpenAI\<close>. Reading \<^verbatim>\<open>analyses[index]\<close> past the end of
  \<^verbatim>\<open>analyses\<close> gives \<^verbatim>\<open>undefined\<close>, and the filter that follows throws on it. The
  result is \<open>Inr None\<close> when one of the analyses has no reading at its declared type.
\<close>

definition analyzeIssuesWithOpenAI ::
  "runtime \<Rightarrow> backends \<Rightarrow> string \<Rightarrow> GitHubIssue list
     \<Rightarrow> js_error + AnalyzedIssue list option" where
  "analyzeIssuesWithOpenAI rt services componentName issues' =
     (let requests =
            map (\<lambda>issue. \<lparr> component_name' = componentName,
                            issue_title = title issue,
                            issue_body = (case body issue of None \<Rightarrow> [] | Some b \<Rightarrow> b),
                            issue_labels = map name (labels issue),
                            issue_url = html_url issue \<rparr>) issues';
          analyses = analyzeIssuesBatch rt (analysisCall services) (callLatency services)
                       (openaiModel services) requests
      in if length analyses < length issues' then
           Inl (JsError ''TypeError''
                  ''Cannot read properties of undefined (reading 'is_critical')'')
         else
           Inr (those
                  (map (\<lambda>(issue, index).
                          map_option (\<lambda>a. \<lparr> github_issue = issue, analysis = a \<rparr>)
                            (asIssueAnalysis rt (analyses ! index)))
                     (zip issues' [0..<length issues']))))"

text \<open>
  \<^verbatim>\<open>generateSummary\<close> of the analyzer, with its own \<^verbatim>\<open>catch\<close> block; \<open>None\<close> when
  the object of the summary rollup has no reading at the declared type.
\<close>

definition generateSummary ::
  "runtime \<Rightarrow> backends \<Rightarrow> string \<Rightarrow> AnalyzedIssue list \<Rightarrow> Summary option" where
  "generateSummary rt services componentName analyses =
     (case generateComponentSummary rt (summaryCall services) (openaiModel services)
             componentName analyses of
        Inr v \<Rightarrow> asSummary rt v
      | Inl error \<Rightarrow>
          Some \<lparr> most_critical_issues = [],
                 common_problems = [''Unable to generate summary due to API error''],
                 recommended_actions = [''Manual review of issues recommended''] \<rparr>)"

definition createEmptyReport :: "runtime \<Rightarrow> string \<Rightarrow> ComponentAnalysisReport" where
  "createEmptyReport rt componentName =
     \<lparr> component_name = componentName,
       analysis_date = now rt,
       total_issues = 0,
       critical_issues = 0,
       high_priority_issues = 0,
       issues = [],
       summary =
         \<lparr> most_critical_issues = [],
           common_problems = [],
           recommended_actions =
             [''No issues found for '' @ componentName
                @ '' component - it appears to be stable!''] \<rparr> \<rparr>"

text \<open>
  \<^verbatim>\<open>analyzeComponent\<close>; \<open>Inl\<close> is the error it rethrows, \<open>Inr (Some report)\<close> the
  report it returns, and \<open>Inr None\<close> stands for a returned report that holds an object
  without a reading at its declared type. The search of the analyzer passes
  \<^verbatim>\<open>maxIssues\<close> and \<^verbatim>\<open>includeClosedIssues\<close> on to the search service. Console output
  is not modelled.
\<close>

definition analyzeComponent ::
  "runtime \<Rightarrow> backends \<Rightarrow> AnalyzeOptions \<Rightarrow> js_error + ComponentAnalysisReport option" where
  "analyzeComponent rt services options =
     (let componentName = component options;
          maxIssues' = (case maxIssues options of None \<Rightarrow> 50 | Some m \<Rightarrow> m);
          includeClosedIssues' =
            (case includeClosedIssues options of None \<Rightarrow> False | Some b \<Rightarrow> b)
      in case searchComponentIssues (searchCall services) componentName
                \<lparr> opt_maxIssues = Some maxIssues',
                  opt_includeClosedIssues = Some includeClosedIssues',
                  opt_state = None \<rparr> of
           Inl error \<Rightarrow> Inl error
         | Inr issues' \<Rightarrow>
             if length issues' = 0 then Inr (Some (createEmptyReport rt componentName))
             else
               (case analyzeIssuesWithOpenAI rt services componentName issues' of
                  Inl error \<Rightarrow> Inl error
                | Inr None \<Rightarrow> Inr None
                | Inr (Some analyses) \<Rightarrow>
                    (case generateSummary rt services componentName analyses of
                       None \<Rightarrow> Inr None
                     | Some summary' \<Rightarrow>
                         Inr (Some (createReport rt componentName issues' analyses
                                      summary')))))"

text \<open>
  \<^verbatim>\<open>getAnalysisStats\<close>. The counts and the confidence scores enter the arithmetic as
  the doubles that hold them.
\<close>

record AnalysisStats =
  criticalPercentage :: double
  highPriorityPercentage :: double
  avgConfidence :: double

definition getAnalysisStats :: "ComponentAnalysisReport \<Rightarrow> AnalysisStats" where
  "getAnalysisStats report =
     (let total = total_issues report
      in if total = 0 then
           \<lparr> criticalPercentage = Finite 0, highPriorityPercentage = Finite 0,
             avgConfidence = Finite 0 \<rparr>
         else
           (let criticalPercentage' =
                  jsMul (jsDiv (doubleOfInt (critical_issues report)) (doubleOfInt total))
                    (Finite 100);
                highPriorityPercentage' =
                  jsMul (jsDiv (doubleOfInt (high_priority_issues report)) (doubleOfInt total))
                    (Finite 100);
                avgConfidence' =
                  jsDiv (foldl (\<lambda>sum' item.
                                  jsAdd sum' (roundDouble (confidence_score (analysis item))))
                           (Finite 0) (issues report))
                    (doubleOfInt total)
            in \<lparr> criticalPercentage =
                   jsDiv (Math_round (jsMul criticalPercentage' (Finite 10))) (Finite 10),
                 highPriorityPercentage =
                   jsDiv (Math_round (jsMul highPriorityPercentage' (Finite 10))) (Finite 10),
                 avgConfidence =
                   jsDiv (Math_round (jsMul avgConfidence' (Finite 10))) (Finite 10) \<rparr>))"
section \<open>Rendering and saving (ReportService)\<close>

text \<open>The emoji of the report, as their UTF-8 bytes.\<close>

definition emojiChart :: string where
  "emojiChart = [CHR 0xF0, CHR 0x9F, CHR 0x93, CHR 0x8A]"

definition emojiRed :: string where
  "emojiRed = [CHR 0xF0, CHR 0x9F, CHR 0x94, CHR 0xB4]"

definition emojiOrange :: string where
  "emojiOrange = [CHR 0xF0, CHR 0x9F, CHR 0x9F, CHR 0xA0]"

definition emojiYellow :: string where
  "emojiYellow = [CHR 0xF0, CHR 0x9F, CHR 0x9F, CHR 0xA1]"

definition emojiGreen :: string where
  "emojiGreen = [CHR 0xF0, CHR 0x9F, CHR 0x9F, CHR 0xA2]"

definition emojiSiren :: string where
  "emojiSiren = [CHR 0xF0, CHR 0x9F, CHR 0x9A, CHR 0xA8]"

definition emojiWarning :: string where
  "emojiWarning = [CHR 0xE2, CHR 0x9A, CHR 0xA0, CHR 0xEF, CHR 0xB8, CHR 0x8F]"

definition emojiClipboard :: string where
  "emojiClipboard = [CHR 0xF0, CHR 0x9F, CHR 0x93, CHR 0x8B]"

definition emojiMemo :: string where
  "emojiMemo = [CHR 0xF0, CHR 0x9F, CHR 0x93, CHR 0x9D]"

definition emojiMagnifier :: string where
  "emojiMagnifier = [CHR 0xF0, CHR 0x9F, CHR 0x94, CHR 0x8D]"

definition emojiTrend :: string where
  "emojiTrend = [CHR 0xF0, CHR 0x9F, CHR 0x93, CHR 0x88]"

definition severityText :: "severity \<Rightarrow> string" where
  "severityText s =
     (case s of Low \<Rightarrow> ''low'' | Medium \<Rightarrow> ''medium'' | High \<Rightarrow> ''high''
              | Critical \<Rightarrow> ''critical'')"

definition stateText :: "issue_state \<Rightarrow> string" where
  "stateText s = (case s of StateOpen \<Rightarrow> ''open'' | StateClosed \<Rightarrow> ''closed'')"

text \<open>\<^verbatim>\<open>.toUpperCase()\<close>, on ASCII.\<close>

definition toUpperCase :: "string \<Rightarrow> string" where
  "toUpperCase s = map (\<lambda>c. if isLowerCase c then char_of ((of_char c :: nat) - 32) else c) s"

definition formatIssueSection ::
  "runtime \<Rightarrow> GitHubIssue \<Rightarrow> IssueAnalysis \<Rightarrow> nat \<Rightarrow> string \<Rightarrow> bool \<Rightarrow> string" where
  "formatIssueSection rt issue analysis' index emoji compact' =
     (if compact' then
        ''### '' @ emoji @ '' '' @ numberToString rt (of_nat index) @ ''. ['' @ title issue
          @ '']('' @ html_url issue @ '')'' @ nl @ nl
        @ ''**Severity:** '' @ toUpperCase (severityText (severity_level analysis'))
          @ '' | **Confidence:** '' @ numberToString rt (confidence_score analysis')
          @ ''%'' @ nl @ nl
        @ reasoning analysis' @ nl @ nl
      else
        ''### '' @ emoji @ '' '' @ numberToString rt (of_nat index) @ ''. ['' @ title issue
          @ '']('' @ html_url issue @ '')'' @ nl @ nl
        @ ''**Issue #'' @ numberToString rt (of_int (number issue))
          @ ''** | **Severity:** '' @ toUpperCase (severityText (severity_level analysis'))
          @ '' | **Confidence:** '' @ numberToString rt (confidence_score analysis')
          @ ''%'' @ nl @ nl
        @ (if length (labels issue) > 0 then
             ''**Labels:** ''
             @ join '', '' (map (\<lambda>label. [CHR 0x60] @ name label @ [CHR 0x60]) (labels issue))
             @ nl @ nl
           else [])
        @ ''**Why this is '' @ severityText (severity_level analysis') @ '' priority:**'' @ nl
        @ reasoning analysis' @ nl @ nl
        @ (if length (affected_functionality analysis') > 0 then
             ''**Affected Functionality:**'' @ nl
             @ concat (map (\<lambda>func. ''- '' @ func @ nl) (affected_functionality analysis'))
             @ nl
           else [])
        @ ''**Impact:** '' @ impact_description analysis' @ nl @ nl
        @ ''**Created:** '' @ toLocaleDateString rt (created_at issue) @ nl
        @ ''**Updated:** '' @ toLocaleDateString rt (updated_at issue) @ nl
        @ ''**Comments:** '' @ numberToString rt (of_int (comments issue)) @ nl
        @ ''**State:** '' @ stateText (state issue) @ nl @ nl)
     @ ''---'' @ nl @ nl"

text \<open>
  \<^verbatim>\<open>getConfidenceDistribution\<close>: the entries of the returned object, in the order of
  their insertion.
\<close>

definition getConfidenceDistribution :: "AnalyzedIssue list \<Rightarrow> (string \<times> nat) list" where
  "getConfidenceDistribution items =
     [(''High (80-100%)'',
         length (filter (\<lambda>item. confidence_score (analysis item) \<ge> 80) items)),
      (''Medium (60-79%)'',
         length (filter (\<lambda>item. \<not> confidence_score (analysis item) \<ge> 80
                                   \<and> confidence_score (analysis item) \<ge> 60) items)),
      (''Low (40-59%)'',
         length (filter (\<lambda>item. \<not> confidence_score (analysis item) \<ge> 80
                                   \<and> \<not> confidence_score (analysis item) \<ge> 60
                                   \<and> confidence_score (analysis item) \<ge> 40) items)),
      (''Very Low (0-39%)'',
         length (filter (\<lambda>item. \<not> confidence_score (analysis item) \<ge> 80
                                   \<and> \<not> confidence_score (analysis item) \<ge> 60
                                   \<and> \<not> confidence_score (analysis item) \<ge> 40) items))]"

text \<open>The sections of one priority: \<^verbatim>\<open>forEach((item, index) => ...)\<close>.\<close>

definition issueSections ::
  "runtime \<Rightarrow> AnalyzedIssue list \<Rightarrow> string \<Rightarrow> bool \<Rightarrow> string" where
  "issueSections rt items emoji compact' =
     concat (map (\<lambda>(item, index).
                    formatIssueSection rt (github_issue item) (analysis item) (index + 1)
                      emoji compact')
               (zip items [0..<length items]))"

definition bulletList :: "string list \<Rightarrow> string" where
  "bulletList entries = concat (map (\<lambda>entry. ''- '' @ entry @ nl) entries)"

text \<open>
  The text of \<^verbatim>\<open>generateMarkdownReport\<close> before its footer. The average confidence is
  computed in binary64; that of an empty list of issues is \<^verbatim>\<open>0 / 0\<close>, that is
  \<^verbatim>\<open>NaN\<close>.
\<close>

definition markdownBody :: "runtime \<Rightarrow> ComponentAnalysisReport \<Rightarrow> string" where
  "markdownBody rt report =
     (let criticalIssues = filter isCriticalItem (issues report);
          highPriorityIssues = filter isHighPriorityItem (issues report);
          mediumPriorityIssues =
            filter (\<lambda>item. severity_level (analysis item) = Medium) (issues report);
          lowPriorityIssues =
            filter (\<lambda>item. severity_level (analysis item) = Low) (issues report);
          avgConfidence' =
            jsDiv (foldl (\<lambda>sum' item.
                            jsAdd sum' (roundDouble (confidence_score (analysis item))))
                     (Finite 0) (issues report))
              (doubleOfInt (int (length (issues report))))
      in ''# '' @ component_name report @ '' Component Analysis Report'' @ nl @ nl
         @ ''**Generated on:** '' @ toLocaleDateString rt (analysis_date report) @ nl @ nl
         @ ''## '' @ emojiChart @ '' Summary'' @ nl @ nl
         @ ''- **Total Issues Analyzed:** '' @ numberToString rt (of_int (total_issues report))
           @ nl
         @ ''- **Critical Issues:** '' @ numberToString rt (of_int (critical_issues report))
           @ '' '' @ emojiRed @ nl
         @ ''- **High Priority Issues:** ''
           @ numberToString rt (of_int (high_priority_issues report))
           @ '' '' @ emojiOrange @ nl
         @ ''- **Medium/Low Priority Issues:** ''
           @ numberToString rt
               (of_int (total_issues report - critical_issues report
                          - high_priority_issues report))
           @ '' '' @ emojiYellow @ nl @ nl
         @ (if critical_issues report > 0 then
              ''## '' @ emojiSiren @ '' Critical Issues'' @ nl @ nl
              @ ''These issues prevent basic component usage or cause severe problems:''
              @ nl @ nl
              @ issueSections rt criticalIssues emojiRed False
            else [])
         @ (if length highPriorityIssues > 0 then
              ''## '' @ emojiWarning @ '' High Priority Issues'' @ nl @ nl
              @ ''These issues significantly impact functionality but don't prevent basic usage:''
              @ nl @ nl
              @ issueSections rt highPriorityIssues emojiOrange False
            else [])
         @ (if length mediumPriorityIssues > 0 then
              ''## '' @ emojiClipboard @ '' Medium Priority Issues'' @ nl @ nl
              @ ''<details>'' @ nl
              @ ''<summary>Click to expand medium priority issues (''
              @ numberToString rt (of_nat (length mediumPriorityIssues))
              @ '' issues)</summary>'' @ nl @ nl
              @ issueSections rt mediumPriorityIssues emojiYellow True
              @ ''</details>'' @ nl @ nl
            else [])
         @ (if length lowPriorityIssues > 0 then
              ''## '' @ emojiMemo @ '' Low Priority Issues'' @ nl @ nl
              @ ''<details>'' @ nl
              @ ''<summary>Click to expand low priority issues (''
              @ numberToString rt (of_nat (length lowPriorityIssues))
              @ '' issues)</summary>'' @ nl @ nl
              @ issueSections rt lowPriorityIssues emojiGreen True
              @ ''</details>'' @ nl @ nl
            else [])
         @ ''## '' @ emojiMagnifier @ '' Analysis Summary'' @ nl @ nl
         @ (if length (most_critical_issues (summary report)) > 0 then
              ''### Most Critical Issues'' @ nl
              @ bulletList (most_critical_issues (summary report)) @ nl
            else [])
         @ (if length (common_problems (summary report)) > 0 then
              ''### Common Problems Identified'' @ nl
              @ bulletList (common_problems (summary report)) @ nl
            else [])
         @ (if length (recommended_actions (summary report)) > 0 then
              ''### Recommended Actions'' @ nl
              @ bulletList (recommended_actions (summary report)) @ nl
            else [])
         @ ''## '' @ emojiTrend @ '' Analysis Confidence'' @ nl @ nl
         @ ''**Average Confidence Score:** '' @ toFixed1 rt avgConfidence' @ ''%'' @ nl @ nl
         @ ''**Confidence Distribution:**'' @ nl
         @ concat (map (\<lambda>(bucket, count'). ''- '' @ bucket @ '': ''
                                          @ numberToString rt (of_nat count') @ '' issues'' @ nl)
                     (getConfidenceDistribution (issues report)))
         @ nl
         @ ''---'' @ nl @ nl
         @ ''*This report was generated automatically using GitHub API and OpenAI analysis.*''
         @ nl)"

text \<open>
  \<^verbatim>\<open>generateMarkdownReport\<close>: the last line calls \<^verbatim>\<open>toISOString\<close>, which throws on an
  invalid date.
\<close>

definition generateMarkdownReport :: "runtime \<Rightarrow> ComponentAnalysisReport \<Rightarrow> js_error + string" where
  "generateMarkdownReport rt report =
     (case toISOString rt (analysis_date report) of
        Inl e \<Rightarrow> Inl e
      | Inr updated \<Rightarrow> Inr (markdownBody rt report @ ''*Last updated: '' @ updated @ ''*'' @ nl))"

text \<open>
  The file system: the directories that exist, the contents of the files, and the paths
  on which \<^verbatim>\<open>mkdirSync\<close> and \<^verbatim>\<open>writeFileSync\<close> throw.
\<close>

record filesystem =
  directories :: "string set"
  files :: "string \<Rightarrow> string option"
  denied :: "string set"

definition mkdirSync :: "string \<Rightarrow> filesystem \<Rightarrow> js_error + filesystem" where
  "mkdirSync dir fs =
     (if dir \<in> denied fs then
        Inl (Error (''EACCES: permission denied, mkdir '' @ dir))
      else Inr (fs\<lparr>directories := insert dir (directories fs)\<rparr>))"

definition writeFileSync :: "string \<Rightarrow> string \<Rightarrow> filesystem \<Rightarrow> js_error + filesystem" where
  "writeFileSync path data fs =
     (if path \<in> denied fs then
        Inl (Error (''EACCES: permission denied, open '' @ path))
      else Inr (fs\<lparr>files := (files fs)(path \<mapsto> data)\<rparr>))"

text \<open>The directory check that opens both save methods.\<close>

definition ensureDirectory :: "runtime \<Rightarrow> string \<Rightarrow> filesystem \<Rightarrow> js_error + filesystem" where
  "ensureDirectory rt outputPath fs =
     (let dir = path_dirname rt outputPath
      in if dir \<notin> directories fs then mkdirSync dir fs else Inr fs)"

definition saveReport ::
  "runtime \<Rightarrow> ComponentAnalysisReport \<Rightarrow> string \<Rightarrow> filesystem \<Rightarrow> js_error + filesystem" where
  "saveReport rt report outputPath fs =
     (case (case ensureDirectory rt outputPath fs of
              Inl e \<Rightarrow> Inl e
            | Inr fs' \<Rightarrow>
                (case generateMarkdownReport rt report of
                   Inl e \<Rightarrow> Inl e
                 | Inr markdown \<Rightarrow> writeFileSync outputPath markdown fs')) of
        Inr fs' \<Rightarrow> Inr fs'
      | Inl error \<Rightarrow> Inl (Error (''Failed to save report: '' @ errorString error)))"

definition saveJsonReport ::
  "runtime \<Rightarrow> ComponentAnalysisReport \<Rightarrow> string \<Rightarrow> filesystem \<Rightarrow> js_error + filesystem" where
  "saveJsonReport rt report outputPath fs =
     (case (case ensureDirectory rt outputPath fs of
              Inl e \<Rightarrow> Inl e
            | Inr fs' \<Rightarrow>
                (let jsonContent = JSON_stringify rt report
                 in writeFileSync outputPath jsonContent fs')) of
        Inr fs' \<Rightarrow> Inr fs'
      | Inl error \<Rightarrow> Inl (Error (''Failed to save JSON report: '' @ errorString error)))"

section \<open>Example data\<close>

text \<open>
  A runtime, requests, backend replies and reports for the closed instances of the
  theorems. The builtins of \<open>exampleRuntime\<close> are stand-ins that agree with Node.js on the
  inputs used below: decimal printing of integers, \<^verbatim>\<open>parseInt\<close> on strings of digits,
  \<^verbatim>\<open>JSON.parse\<close> on four texts, dates printed as the first ten characters of an ISO
  timestamp.
\<close>

function showNat :: "nat \<Rightarrow> string" where
  "showNat n =
     (if n < 10 then [''0123456789'' ! n]
      else showNat (n div 10) @ [''0123456789'' ! (n mod 10)])"
  by pat_completeness auto
termination
  by (relation "measure (\<lambda>n. n)") auto

declare showNat.simps [simp del]

definition showInt :: "int \<Rightarrow> string" where
  "showInt i = (if i < 0 then ''-'' @ showNat (nat (- i)) else showNat (nat i))"

definition digitValue :: "char \<Rightarrow> nat" where
  "digitValue c = (of_char c :: nat) - 48"

definition isDigit :: "char \<Rightarrow> bool" where
  "isDigit c = (48 \<le> (of_char c :: nat) \<and> (of_char c :: nat) \<le> 57)"

definition exampleParseInt :: "string \<Rightarrow> number option" where
  "exampleParseInt s =
     (if s \<noteq> [] \<and> list_all isDigit s
      then Some (of_nat (foldl (\<lambda>n c. 10 * n + digitValue c) 0 s))
      else None)"

definition validAnalysisText :: string where
  \<open>validAnalysisText =
     ''{"issue_id":101,"is_critical":true,"severity_level":"high","reasoning":"Crashes on click","affected_functionality":["click"],"impact_description":"Unusable","confidence_score":90}''\<close>

definition validAnalysis :: js_value where
  "validAnalysis =
     JObj [(''issue_id'', JNum 101),
           (''is_critical'', JBool True),
           (''severity_level'', JStr ''high''),
           (''reasoning'', JStr ''Crashes on click''),
           (''affected_functionality'', JArr [JStr ''click'']),
           (''impact_description'', JStr ''Unusable''),
           (''confidence_score'', JNum 90)]"

definition overconfidentText :: string where
  \<open>overconfidentText =
     ''{"issue_id":101,"is_critical":true,"severity_level":"high","reasoning":"Crashes on click","affected_functionality":["click"],"impact_description":"Unusable","confidence_score":150}''\<close>

definition overconfidentAnalysis :: js_value where
  "overconfidentAnalysis =
     JObj [(''issue_id'', JNum 101),
           (''is_critical'', JBool True),
           (''severity_level'', JStr ''high''),
           (''reasoning'', JStr ''Crashes on click''),
           (''affected_functionality'', JArr [JStr ''click'']),
           (''impact_description'', JStr ''Unusable''),
           (''confidence_score'', JNum 150)]"

text \<open>A reply without the field \<^verbatim>\<open>reasoning\<close>.\<close>

definition incompleteText :: string where
  \<open>incompleteText =
     ''{"issue_id":101,"is_critical":true,"severity_level":"high","affected_functionality":["click"],"impact_description":"Unusable","confidence_score":90}''\<close>

definition incompleteAnalysis :: js_value where
  "incompleteAnalysis =
     JObj [(''issue_id'', JNum 101),
           (''is_critical'', JBool True),
           (''severity_level'', JStr ''high''),
           (''affected_functionality'', JArr [JStr ''click'']),
           (''impact_description'', JStr ''Unusable''),
           (''confidence_score'', JNum 90)]"

definition exampleParse :: "string \<Rightarrow> js_error + js_value" where
  "exampleParse s =
     (if s = validAnalysisText then Inr validAnalysis
      else if s = overconfidentText then Inr overconfidentAnalysis
      else if s = incompleteText then Inr incompleteAnalysis
      else if s = ''null'' then Inr JNull
      else Inl (JsError ''SyntaxError'' ''Unexpected token in JSON''))"

definition exampleDirname :: "string \<Rightarrow> string" where
  "exampleDirname path = orElse (join ''/'' (butlast (split CHR ''/'' path))) ''.''"

definition exampleRuntime :: runtime where
  \<open>exampleRuntime =
     \<lparr> now = ''2024-05-01T12:00:00.000Z'',
       toLocaleDateString = (\<lambda>s. take 10 s),
       toISOString =
         (\<lambda>s. if s = [] then Inl (JsError ''RangeError'' ''Invalid time value'') else Inr s),
       numberToString = (\<lambda>x. showInt \<lfloor>x\<rfloor>),
       toFixed1 =
         (\<lambda>x. case x of
                Finite y \<Rightarrow> showInt (\<lfloor>y * 10 + 1 / 2\<rfloor> div 10) @ ''.''
                              @ showInt (\<lfloor>y * 10 + 1 / 2\<rfloor> mod 10)
              | PosInfinity \<Rightarrow> ''Infinity''
              | NegInfinity \<Rightarrow> ''-Infinity''
              | NaN \<Rightarrow> ''NaN''),
       parseInt = exampleParseInt,
       JSON_parse = exampleParse,
       JSON_stringify = (\<lambda>report. ''{ "component_name": "'' @ component_name report @ ''" }''),
       inTypeError =
         (\<lambda>field v. JsError ''TypeError''
                       (''Cannot use 'in' operator to search for '' @ [CHR 0x27] @ field
                          @ [CHR 0x27] @ '' in '' @ jsString (\<lambda>x. showInt \<lfloor>x\<rfloor>) v)),
       path_dirname = exampleDirname \<rparr>\<close>

definition exampleRequest :: "nat \<Rightarrow> OpenAIIssueAnalysisRequest" where
  "exampleRequest k =
     \<lparr> component_name' = ''button'',
       issue_title = ''Issue '' @ showNat k,
       issue_body = [],
       issue_labels = [''bug''],
       issue_url = ''https://github.com/shadcn-ui/ui/issues/'' @ showNat (100 + k) \<rparr>"

definition exampleCompletion :: "string \<Rightarrow> chat_completion" where
  "exampleCompletion text =
     \<lparr> choices = [\<lparr> message = Some \<lparr> msg_content = Some text \<rparr> \<rparr>] \<rparr>"

text \<open>
  A backend whose third call throws and whose other calls answer with a valid analysis,
  and latencies under which the later a call is issued the earlier it settles.
\<close>

definition flakyClient :: "nat \<Rightarrow> chat_call" where
  "flakyClient k =
     (if k = 2 then (\<lambda>params. Inl (Error ''connect ETIMEDOUT''))
      else (\<lambda>params. Inr (exampleCompletion validAnalysisText)))"

definition reversedLatency :: "nat \<Rightarrow> nat" where
  "reversedLatency k = 1000 - 10 * k"

definition exampleIssue :: "int \<Rightarrow> GitHubIssue" where
  "exampleIssue n =
     \<lparr> id' = of_int n + 1000,
       number = n,
       title = ''Issue '' @ showInt n,
       body = None,
       state = StateOpen,
       created_at = ''2024-01-02T03:04:05Z'',
       updated_at = ''2024-02-03T04:05:06Z'',
       html_url = ''https://github.com/shadcn-ui/ui/issues/'' @ showInt n,
       user = \<lparr> login = ''octocat'', avatar_url = [] \<rparr>,
       labels = [],
       assignees = [],
       comments = 0 \<rparr>"

definition exampleAnalyzed :: "int \<Rightarrow> bool \<Rightarrow> severity \<Rightarrow> AnalyzedIssue" where
  "exampleAnalyzed n flag sev =
     \<lparr> github_issue = exampleIssue n,
       analysis =
         \<lparr> issue_id = Some (of_int n),
           is_critical = flag,
           severity_level = sev,
           reasoning = ''Crashes on click'',
           affected_functionality = [''click''],
           impact_description = ''Unusable'',
           confidence_score = 90 \<rparr> \<rparr>"

definition exampleSummary :: Summary where
  "exampleSummary =
     \<lparr> most_critical_issues = [''Issue 7''],
       common_problems = [''Click handling''],
       recommended_actions = [''Pin the previous version''] \<rparr>"

text \<open>
  Services whose search finds nothing, whose classification calls are those of
  \<open>flakyClient\<close>, and whose summary call throws.
\<close>

definition failingBackends :: backends where
  "failingBackends =
     \<lparr> searchCall = (\<lambda>params. Inr []),
       analysisCall = flakyClient,
       callLatency = reversedLatency,
       summaryCall = (\<lambda>params. Inl (Error ''503 Service Unavailable'')),
       openaiModel = ''gpt-4o-mini'' \<rparr>"

text \<open>Items of a search response, and search calls that answer with them.\<close>

definition exampleItem :: "int \<Rightarrow> issue_state \<Rightarrow> string option \<Rightarrow> SearchItem" where
  "exampleItem n st pr =
     \<lparr> id' = of_int n + 1000,
       number = n,
       title = ''Issue '' @ showInt n,
       body = None,
       state = st,
       created_at = ''2024-01-02T03:04:05Z'',
       updated_at = ''2024-02-03T04:05:06Z'',
       html_url = ''https://github.com/shadcn-ui/ui/issues/'' @ showInt n,
       user = \<lparr> login = ''octocat'', avatar_url = [] \<rparr>,
       labels = [],
       assignees = [],
       comments = 0,
       pull_request = pr \<rparr>"

text \<open>
  A tracker with the open issue 7 and the closed issue 8: a query over open issues finds
  the first, any other query finds both.
\<close>

definition openOnlySearch :: search_call where
  "openOnlySearch params =
     (if q params = ''repo:shadcn-ui/ui is:issue state:open button''
      then Inr [exampleItem 7 StateOpen None]
      else Inr [exampleItem 7 StateOpen None, exampleItem 8 StateClosed None])"


text \<open>
  A report with one critical issue, an empty file system, and a date format that agrees
  with that of \<open>exampleRuntime\<close> on the three timestamps stored in the report only.
\<close>

definition exampleReport :: ComponentAnalysisReport where
  "exampleReport =
     createReport exampleRuntime ''button'' [exampleIssue 7] [exampleAnalyzed 7 True High]
       exampleSummary"

text \<open>A report of 80 issues, 23 of them critical and 41 of high priority.\<close>

definition statsReport :: ComponentAnalysisReport where
  "statsReport =
     createReport exampleRuntime ''button''
       (map (\<lambda>n. exampleIssue (int n)) [1..<81])
       (map (\<lambda>n. exampleAnalyzed (int n) (n \<le> 23) (if n \<le> 64 then High else Low)) [1..<81])
       exampleSummary"

definition emptyFilesystem :: filesystem where
  "emptyFilesystem = \<lparr> directories = {}, files = (\<lambda>path. None), denied = {} \<rparr>"

definition storedDatesOnly :: "string \<Rightarrow> string" where
  "storedDatesOnly s =
     (if s \<in> {''2024-05-01T12:00:00.000Z'', ''2024-01-02T03:04:05Z'', ''2024-02-03T04:05:06Z''}
      then take 10 s else ''Invalid Date'')"

section \<open>Order and length of a batch\<close>

lemma foldl_slots:
  "set ks \<subseteq> {0..<length slots} \<Longrightarrow>
   foldl (\<lambda>slots' k. slots'[k := Some (g k)]) slots ks =
     map (\<lambda>k. if k \<in> set ks then Some (g k) else slots ! k) [0..<length slots]"
proof (induction ks arbitrary: slots)
  case Nil
  then show ?case by (simp add: map_nth)
next
  case (Cons a ks)
  then show ?case
    by (auto simp: nth_list_update intro!: nth_equalityI)
qed

lemma map_filter_Some: "List.map_filter (\<lambda>slot. slot) (map Some xs) = xs"
  by (induction xs) (simp_all add: List.map_filter_simps)

lemma allSettled_eq: "allSettled latency promises = map settle promises"
proof -
  have "foldl (\<lambda>slots' k. slots'[k := Some (settle (promises ! k))])
          (replicate (length promises) None) (sort_key latency [0..<length promises])
        = map (\<lambda>k. Some (settle (promises ! k))) [0..<length promises]"
    by (subst foldl_slots) auto
  also have "\<dots> = map Some (map settle promises)"
    by (auto intro!: nth_equalityI)
  finally have "foldl (\<lambda>slots' k. slots'[k := Some (settle (promises ! k))])
          (replicate (length promises) None) (sort_key latency [0..<length promises])
        = map Some (map settle promises)" .
  then show ?thesis
    unfolding allSettled_def Let_def by (simp only: map_filter_Some)
qed

lemma slice_chunk: "slice (int i) (int (i + k)) xs = take k (drop i xs)"
  by (auto simp: slice_def Let_def min_def)

lemma analyzeIssue_fulfilled:
  "\<exists>v. analyzeIssue rt create model' request = Inr v"
  by (simp add: analyzeIssue_def split: sum.split)

lemma batchEntry_fulfilled:
  assumes "\<forall>p \<in> set ps. \<exists>v. p = Inr v"
  shows "map Inr (map (\<lambda>(result, index). batchEntry rt batch result index)
           (zip (map settle ps) [0..<length (map settle ps)])) = ps"
proof (rule nth_equalityI)
  show "length (map Inr (map (\<lambda>(result, index). batchEntry rt batch result index)
           (zip (map settle ps) [0..<length (map settle ps)]))) = length ps"
    by simp
next
  fix j
  assume "j < length (map Inr (map (\<lambda>(result, index). batchEntry rt batch result index)
           (zip (map settle ps) [0..<length (map settle ps)])))"
  then have j: "j < length ps" by simp
  then obtain v where v: "ps ! j = Inr v"
    using assms nth_mem by blast
  show "map Inr (map (\<lambda>(result, index). batchEntry rt batch result index)
           (zip (map settle ps) [0..<length (map settle ps)])) ! j = ps ! j"
    using j v by (simp add: batchEntry_def settle_def)
qed

lemma chunk_promises:
  "map (\<lambda>(request, k). f (i + k) request)
     (zip (take m (drop i xs)) [0..<length (take m (drop i xs))])
   = take m (drop i (map (\<lambda>(request, k). f k request) (zip xs [0..<length xs])))"
proof (rule nth_equalityI)
  show "length (map (\<lambda>(request, k). f (i + k) request)
     (zip (take m (drop i xs)) [0..<length (take m (drop i xs))]))
   = length (take m (drop i (map (\<lambda>(request, k). f k request) (zip xs [0..<length xs]))))"
    by simp
next
  fix j
  assume "j < length (map (\<lambda>(request, k). f (i + k) request)
     (zip (take m (drop i xs)) [0..<length (take m (drop i xs))]))"
  then have j: "j < m" "i + j < length xs"
    by auto
  have "map (\<lambda>(request, k). f (i + k) request)
     (zip (take m (drop i xs)) [0..<length (take m (drop i xs))]) ! j = f (i + j) (xs ! (i + j))"
    using j by simp
  moreover have "take m (drop i (map (\<lambda>(request, k). f k request) (zip xs [0..<length xs]))) ! j
     = f (i + j) (xs ! (i + j))"
    using j by simp
  ultimately show "map (\<lambda>(request, k). f (i + k) request)
     (zip (take m (drop i xs)) [0..<length (take m (drop i xs))]) ! j
    = take m (drop i (map (\<lambda>(request, k). f k request) (zip xs [0..<length xs]))) ! j"
    by simp
qed

lemma chunkSchedule_0: "chunkSchedule 0 = []"
  by (simp add: chunkSchedule.simps)

lemma chunkSchedule_step:
  "i < length xs \<Longrightarrow>
   [Calls (length (take batchSize (drop i xs)))]
     @ (if i + batchSize < length xs then [Sleep 1000] else [])
     @ chunkSchedule (length xs - (i + batchSize))
   = chunkSchedule (length xs - i)"
  by (subst (2) chunkSchedule.simps) (auto simp: batchSize_def min_def chunkSchedule_0)

lemma analyzeIssuesBatchLoop_done:
  "\<not> i < length requests \<Longrightarrow>
   analyzeIssuesBatchLoop rt client latency model' requests i results events = (results, events)"
  by (subst analyzeIssuesBatchLoop.simps) simp

lemma analyzeIssuesBatchLoop_step:
  "i < length requests \<Longrightarrow>
   analyzeIssuesBatchLoop rt client latency model' requests i results events =
   analyzeIssuesBatchLoop rt client latency model' requests (i + batchSize)
     (results @ map (\<lambda>(result, index).
                  batchEntry rt (take batchSize (drop i requests)) result index)
        (zip (map settle (map (\<lambda>(request, k). analyzeIssue rt (client (i + k)) model' request)
                 (zip (take batchSize (drop i requests))
                    [0..<length (take batchSize (drop i requests))])))
           [0..<length (map settle (map (\<lambda>(request, k).
                  analyzeIssue rt (client (i + k)) model' request)
                 (zip (take batchSize (drop i requests))
                    [0..<length (take batchSize (drop i requests))])))]))
     (events @ [Calls (length (take batchSize (drop i requests)))]
        @ (if i + batchSize < length requests then [Sleep 1000] else []))"
  by (subst analyzeIssuesBatchLoop.simps)
     (simp only: Let_def slice_chunk allSettled_eq if_True)

lemma all_fulfilled:
  "\<forall>p \<in> set (map (\<lambda>(request, k). analyzeIssue rt (c k) model' request) xs).
     \<exists>v. p = Inr v"
  using analyzeIssue_fulfilled by fastforce

lemma analyzeIssuesBatchLoop_invariant:
  "\<exists>res. analyzeIssuesBatchLoop rt client latency model' requests i results events
           = (results @ res, events @ chunkSchedule (length requests - i))
         \<and> map Inr res
           = drop i (map (\<lambda>(request, k). analyzeIssue rt (client k) model' request)
                       (zip requests [0..<length requests]))"
proof (induction "length requests - i" arbitrary: i results events rule: less_induct)
  case less
  let ?F = "map (\<lambda>(request, k). analyzeIssue rt (client k) model' request)
              (zip requests [0..<length requests])"
  show ?case
  proof (cases "i < length requests")
    case False
    have "analyzeIssuesBatchLoop rt client latency model' requests i results events
           = (results @ [], events @ chunkSchedule (length requests - i))"
      using False by (simp add: analyzeIssuesBatchLoop_done chunkSchedule_0)
    moreover have "map Inr [] = drop i ?F"
      using False by simp
    ultimately show ?thesis by blast
  next
    case True
    define batch where "batch = take batchSize (drop i requests)"
    define ps where "ps = map (\<lambda>(request, k). analyzeIssue rt (client (i + k)) model' request)
                (zip batch [0..<length batch])"
    define new where "new = map (\<lambda>(result, index). batchEntry rt batch result index)
                          (zip (map settle ps) [0..<length (map settle ps)])"
    define events' where "events' = events @ [Calls (length batch)]
                @ (if i + batchSize < length requests then [Sleep 1000] else [])"
    have ps: "ps = take batchSize (drop i ?F)"
      unfolding ps_def batch_def by (rule chunk_promises)
    have "\<forall>p \<in> set ps. \<exists>v. p = Inr v"
      unfolding ps_def by (rule all_fulfilled)
    then have new: "map Inr new = ps"
      unfolding new_def by (rule batchEntry_fulfilled)
    have step: "analyzeIssuesBatchLoop rt client latency model' requests i results events
        = analyzeIssuesBatchLoop rt client latency model' requests (i + batchSize)
            (results @ new) events'"
      unfolding new_def events'_def ps_def batch_def
      by (rule analyzeIssuesBatchLoop_step[OF True])
    have "length requests - (i + batchSize) < length requests - i"
      using True by (simp add: batchSize_def)
    from less[OF this, of "results @ new" events']
    obtain res where res:
      "analyzeIssuesBatchLoop rt client latency model' requests (i + batchSize)
         (results @ new) events'
       = ((results @ new) @ res, events' @ chunkSchedule (length requests - (i + batchSize)))"
      "map Inr res = drop (i + batchSize) ?F"
      by blast
    have sched: "events' @ chunkSchedule (length requests - (i + batchSize))
        = events @ chunkSchedule (length requests - i)"
      unfolding events'_def batch_def
      by (simp only: append_assoc chunkSchedule_step[OF True])
    have "take batchSize (drop i ?F) @ drop batchSize (drop i ?F) = drop i ?F"
      by (rule append_take_drop_id)
    then have "take batchSize (drop i ?F) @ drop (i + batchSize) ?F = drop i ?F"
      by (simp only: drop_drop add.commute)
    then have "map Inr (new @ res) = drop i ?F"
      by (simp only: map_append new res(2) ps)
    moreover have "analyzeIssuesBatchLoop rt client latency model' requests i results events
       = (results @ (new @ res), events @ chunkSchedule (length requests - i))"
      by (simp only: step res(1) sched append_assoc)
    ultimately show ?thesis by blast
  qed
qed

lemma analyzeIssuesBatch_entries:
  "map Inr (analyzeIssuesBatch rt client latency model' requests)
     = map (\<lambda>(request, k). analyzeIssue rt (client k) model' request)
         (zip requests [0..<length requests])"
  using analyzeIssuesBatchLoop_invariant[of rt client latency model' requests 0 "[]" "[]"]
  by (auto simp: analyzeIssuesBatch_def analyzeIssuesBatchRun_def)

lemma analyzeIssuesBatch_events:
  "snd (analyzeIssuesBatchRun rt client latency model' requests)
     = chunkSchedule (length requests)"
  using analyzeIssuesBatchLoop_invariant[of rt client latency model' requests 0 "[]" "[]"]
  by (auto simp: analyzeIssuesBatchRun_def)

lemma analyzeIssuesBatch_length:
  "length (analyzeIssuesBatch rt client latency model' requests) = length requests"
  using arg_cong[OF analyzeIssuesBatch_entries[of rt client latency model' requests],
                 of length]
  by simp

text \<open>
  C1. For every input sequence of requests, the batch returns a sequence of the same
  length whose entry at each position is the value \<^verbatim>\<open>analyzeIssue\<close> is fulfilled with
  for the request at that position; the result is the same for any two assignments of
  latencies to the concurrent calls; and the calls are issued in chunks of five, with a
  delay of 1000 ms between two consecutive chunks.
\<close>

theorem analyzeIssuesBatch_order:
  "length (analyzeIssuesBatch rt client latency model' requests) = length requests
   \<and> map Inr (analyzeIssuesBatch rt client latency model' requests)
       = map (\<lambda>(request, k). analyzeIssue rt (client k) model' request)
           (zip requests [0..<length requests])
   \<and> analyzeIssuesBatch rt client latency model' requests
       = analyzeIssuesBatch rt client latency' model' requests
   \<and> snd (analyzeIssuesBatchRun rt client latency model' requests)
       = chunkSchedule (length requests)"
proof -
  have "map Inr (analyzeIssuesBatch rt client latency model' requests)
      = (map Inr (analyzeIssuesBatch rt client latency' model' requests)
          :: (js_error + js_value) list)"
    by (simp only: analyzeIssuesBatch_entries)
  then have same: "analyzeIssuesBatch rt client latency model' requests
       = analyzeIssuesBatch rt client latency' model' requests"
    by (rule map_injective) (simp add: inj_on_def)
  show ?thesis
    by (rule conjI[OF analyzeIssuesBatch_length
          conjI[OF analyzeIssuesBatch_entries conjI[OF same analyzeIssuesBatch_events]]])
qed

section \<open>Validation and fallback of a single classification\<close>

lemma missingFields_object:
  "missingFields rt (JObj kvs) fs = Inr (filter (\<lambda>f. f \<notin> set (map fst kvs)) fs)"
  by (induction fs) (simp_all add: hasField_def)

lemma missingFields_array: "missingFields rt (JArr xs) fs = Inr fs"
  by (induction fs) (simp_all add: hasField_def)

lemma missingFields_primitive:
  "(\<forall>kvs. v \<noteq> JObj kvs) \<Longrightarrow> (\<forall>xs. v \<noteq> JArr xs) \<Longrightarrow>
   missingFields rt v (f # fs) = Inl (inTypeError rt f v)"
  by (cases v) (simp_all add: hasField_def)

lemma validateAnalysis_primitive:
  assumes "\<forall>kvs. v \<noteq> JObj kvs" and "\<forall>xs. v \<noteq> JArr xs"
  shows "validateAnalysis rt v = Inl (inTypeError rt ''issue_id'' v)"
  unfolding validateAnalysis_def required_def
  by (simp only: missingFields_primitive[OF assms] sum.case)

lemma validateAnalysis_array:
  "validateAnalysis rt (JArr xs) =
     Inl (Error (''Missing required fields in analysis: '' @ join '', '' required))"
  unfolding validateAnalysis_def
  by (simp only: missingFields_array sum.case) (simp add: required_def)

lemma validateAnalysis_object:
  "validateAnalysis rt (JObj kvs) =
     (if \<not> set required \<subseteq> set (map fst kvs) then
        Inl (Error (''Missing required fields in analysis: ''
                     @ join '', '' (filter (\<lambda>f. f \<notin> set (map fst kvs)) required)))
      else if \<not> validSeverity (map_of kvs ''severity_level'') then
        Inl (Error (''Invalid severity_level: ''
                     @ templateString rt (map_of kvs ''severity_level'')))
      else if \<not> validConfidence (map_of kvs ''confidence_score'') then
        Inl (Error (''Invalid confidence_score: ''
                     @ templateString rt (map_of kvs ''confidence_score'')))
      else Inr ())"
proof -
  have "(filter (\<lambda>f. f \<notin> set (map fst kvs)) required = []) = (set required \<subseteq> set (map fst kvs))"
    by (auto simp: filter_empty_conv)
  then show ?thesis
    unfolding validateAnalysis_def
    by (simp only: missingFields_object sum.case) (simp add: getProp_def)
qed

lemma analyzeIssue_cases:
  "analyzeIssue rt create model' request =
     Inr (case analyzeIssueTry rt create model' request of
            Inr v \<Rightarrow> v
          | Inl e \<Rightarrow> analyzeIssueFallback rt request e)"
  by (simp add: analyzeIssue_def split: sum.split)

lemma validSeverity_iff:
  "validSeverity sv =
     (\<exists>s. sv = Some (JStr s) \<and> s \<in> {''low'', ''medium'', ''high'', ''critical''})"
  by (auto simp: validSeverity_def split: option.splits js_value.splits)

lemma validConfidence_iff:
  "validConfidence c = ((\<exists>q. c = Some (JNum q) \<and> 0 \<le> q \<and> q \<le> 100) \<or> c = Some JNaN)"
  by (auto simp: validConfidence_def split: option.splits js_value.splits)

lemma analyzeIssueFallback_fields:
  "getProp ''is_critical'' (analyzeIssueFallback rt request e) = Some (JBool False)
   \<and> getProp ''severity_level'' (analyzeIssueFallback rt request e) = Some (JStr ''medium'')
   \<and> getProp ''confidence_score'' (analyzeIssueFallback rt request e) = Some (JNum 0)
   \<and> getProp ''reasoning'' (analyzeIssueFallback rt request e)
       = Some (JStr (''Failed to analyze with OpenAI: '' @ errorString e
                      @ ''. Manual review required.''))"
  by (simp add: analyzeIssueFallback_def getProp_def)

text \<open>
  C2. \<^verbatim>\<open>analyzeIssue\<close> is always fulfilled, never rejected. When the call to the backend
  throws, when the completion has no content or an empty one, when the content does not
  parse, when the parsed value is not an object, when it is an array or an object that
  lacks one of the seven required fields (\<^verbatim>\<open>issue_id\<close>, \<^verbatim>\<open>is_critical\<close>,
  \<^verbatim>\<open>severity_level\<close>, \<^verbatim>\<open>reasoning\<close>, \<^verbatim>\<open>affected_functionality\<close>,
  \<^verbatim>\<open>impact_description\<close>, \<^verbatim>\<open>confidence_score\<close>), when its severity token is not one of
  \<^verbatim>\<open>low\<close>, \<^verbatim>\<open>medium\<close>, \<^verbatim>\<open>high\<close>, \<^verbatim>\<open>critical\<close>, or when its confidence score is
  not a number of the interval from 0 to 100, the result is the fallback object built
  from the error of that failure; otherwise it is the parsed object itself, unchanged.
  The fallback object has \<^verbatim>\<open>is_critical\<close> false, \<^verbatim>\<open>severity_level\<close> medium,
  \<^verbatim>\<open>confidence_score\<close> 0 and a \<^verbatim>\<open>reasoning\<close> that quotes the error.
\<close>

theorem analyzeIssue_never_raises:
  "(\<exists>a. analyzeIssue rt create model' request = Inr a)
   \<and> (create (analysisParams model' request) = Inl e
        \<longrightarrow> analyzeIssue rt create model' request = Inr (analyzeIssueFallback rt request e))
   \<and> (create (analysisParams model' request) = Inr completion
        \<and> (completionContent completion = None \<or> completionContent completion = Some [])
        \<longrightarrow> analyzeIssue rt create model' request
              = Inr (analyzeIssueFallback rt request (Error ''No response content from OpenAI'')))
   \<and> (create (analysisParams model' request) = Inr completion
        \<and> completionContent completion = Some reply \<and> reply \<noteq> []
        \<and> JSON_parse rt reply = Inl e
        \<longrightarrow> analyzeIssue rt create model' request = Inr (analyzeIssueFallback rt request e))
   \<and> (create (analysisParams model' request) = Inr completion
        \<and> completionContent completion = Some reply \<and> reply \<noteq> []
        \<and> JSON_parse rt reply = Inr v
        \<longrightarrow>
          ((\<forall>kvs. v \<noteq> JObj kvs) \<and> (\<forall>xs. v \<noteq> JArr xs)
             \<longrightarrow> analyzeIssue rt create model' request
                   = Inr (analyzeIssueFallback rt request (inTypeError rt ''issue_id'' v)))
          \<and> (v = JArr xs
             \<longrightarrow> analyzeIssue rt create model' request
                   = Inr (analyzeIssueFallback rt request
                            (Error (''Missing required fields in analysis: ''
                                     @ join '', '' required))))
          \<and> (v = JObj kvs \<and> \<not> set required \<subseteq> fst ` set kvs
             \<longrightarrow> analyzeIssue rt create model' request
                   = Inr (analyzeIssueFallback rt request
                            (Error (''Missing required fields in analysis: ''
                                     @ join '', '' (filter (\<lambda>f. f \<notin> fst ` set kvs) required)))))
          \<and> (v = JObj kvs \<and> set required \<subseteq> fst ` set kvs
              \<and> \<not> validSeverity (map_of kvs ''severity_level'')
             \<longrightarrow> analyzeIssue rt create model' request
                   = Inr (analyzeIssueFallback rt request
                            (Error (''Invalid severity_level: ''
                                     @ templateString rt (map_of kvs ''severity_level'')))))
          \<and> (v = JObj kvs \<and> set required \<subseteq> fst ` set kvs
              \<and> validSeverity (map_of kvs ''severity_level'')
              \<and> \<not> validConfidence (map_of kvs ''confidence_score'')
             \<longrightarrow> analyzeIssue rt create model' request
                   = Inr (analyzeIssueFallback rt request
                            (Error (''Invalid confidence_score: ''
                                     @ templateString rt (map_of kvs ''confidence_score'')))))
          \<and> (v = JObj kvs \<and> set required \<subseteq> fst ` set kvs
              \<and> validSeverity (map_of kvs ''severity_level'')
              \<and> validConfidence (map_of kvs ''confidence_score'')
             \<longrightarrow> analyzeIssue rt create model' request = Inr v))
   \<and> (validSeverity sv
        = (\<exists>s. sv = Some (JStr s) \<and> s \<in> {''low'', ''medium'', ''high'', ''critical''}))
   \<and> (validConfidence c
        = ((\<exists>q. c = Some (JNum q) \<and> 0 \<le> q \<and> q \<le> 100) \<or> c = Some JNaN))
   \<and> required
       = [''issue_id'', ''is_critical'', ''severity_level'', ''reasoning'',
          ''affected_functionality'', ''impact_description'', ''confidence_score'']
   \<and> getProp ''is_critical'' (analyzeIssueFallback rt request e) = Some (JBool False)
   \<and> getProp ''severity_level'' (analyzeIssueFallback rt request e) = Some (JStr ''medium'')
   \<and> getProp ''confidence_score'' (analyzeIssueFallback rt request e) = Some (JNum 0)
   \<and> getProp ''reasoning'' (analyzeIssueFallback rt request e)
       = Some (JStr (''Failed to analyze with OpenAI: '' @ errorString e
                      @ ''. Manual review required.''))"
proof -
  have total: "\<exists>a. analyzeIssue rt create model' request = Inr a"
    by (simp add: analyzeIssue_cases)
  have transport: "create (analysisParams model' request) = Inl e
      \<longrightarrow> analyzeIssue rt create model' request = Inr (analyzeIssueFallback rt request e)"
    by (simp add: analyzeIssue_def analyzeIssueTry_def)
  have empty: "create (analysisParams model' request) = Inr completion
        \<and> (completionContent completion = None \<or> completionContent completion = Some [])
        \<longrightarrow> analyzeIssue rt create model' request
              = Inr (analyzeIssueFallback rt request (Error ''No response content from OpenAI''))"
    by (auto simp: analyzeIssue_def analyzeIssueTry_def)
  have unparseable: "create (analysisParams model' request) = Inr completion
        \<and> completionContent completion = Some reply \<and> reply \<noteq> []
        \<and> JSON_parse rt reply = Inl e
        \<longrightarrow> analyzeIssue rt create model' request = Inr (analyzeIssueFallback rt request e)"
    by (simp add: analyzeIssue_def analyzeIssueTry_def)
  have parsed: "analyzeIssue rt create model' request =
        Inr (case validateAnalysis rt v of
               Inl e' \<Rightarrow> analyzeIssueFallback rt request e'
             | Inr u \<Rightarrow> v)"
    if "create (analysisParams model' request) = Inr completion"
      and "completionContent completion = Some reply" and "reply \<noteq> []"
      and "JSON_parse rt reply = Inr v"
    using that by (simp add: analyzeIssue_def analyzeIssueTry_def split: sum.split)
  have img: "set (map fst kvs) = fst ` set kvs"
    by simp
  have validated: "create (analysisParams model' request) = Inr completion
        \<and> completionContent completion = Some reply \<and> reply \<noteq> []
        \<and> JSON_parse rt reply = Inr v
        \<longrightarrow>
          ((\<forall>kvs. v \<noteq> JObj kvs) \<and> (\<forall>xs. v \<noteq> JArr xs)
             \<longrightarrow> analyzeIssue rt create model' request
                   = Inr (analyzeIssueFallback rt request (inTypeError rt ''issue_id'' v)))
          \<and> (v = JArr xs
             \<longrightarrow> analyzeIssue rt create model' request
                   = Inr (analyzeIssueFallback rt request
                            (Error (''Missing required fields in analysis: ''
                                     @ join '', '' required))))
          \<and> (v = JObj kvs \<and> \<not> set required \<subseteq> fst ` set kvs
             \<longrightarrow> analyzeIssue rt create model' request
                   = Inr (analyzeIssueFallback rt request
                            (Error (''Missing required fields in analysis: ''
                                     @ join '', '' (filter (\<lambda>f. f \<notin> fst ` set kvs) required)))))
          \<and> (v = JObj kvs \<and> set required \<subseteq> fst ` set kvs
              \<and> \<not> validSeverity (map_of kvs ''severity_level'')
             \<longrightarrow> analyzeIssue rt create model' request
                   = Inr (analyzeIssueFallback rt request
                            (Error (''Invalid severity_level: ''
                                     @ templateString rt (map_of kvs ''severity_level'')))))
          \<and> (v = JObj kvs \<and> set required \<subseteq> fst ` set kvs
              \<and> validSeverity (map_of kvs ''severity_level'')
              \<and> \<not> validConfidence (map_of kvs ''confidence_score'')
             \<longrightarrow> analyzeIssue rt create model' request
                   = Inr (analyzeIssueFallback rt request
                            (Error (''Invalid confidence_score: ''
                                     @ templateString rt (map_of kvs ''confidence_score'')))))
          \<and> (v = JObj kvs \<and> set required \<subseteq> fst ` set kvs
              \<and> validSeverity (map_of kvs ''severity_level'')
              \<and> validConfidence (map_of kvs ''confidence_score'')
             \<longrightarrow> analyzeIssue rt create model' request = Inr v)"
  proof (intro impI, elim conjE)
    assume p: "create (analysisParams model' request) = Inr completion"
      "completionContent completion = Some reply" "reply \<noteq> []" "JSON_parse rt reply = Inr v"
    note r = parsed[OF p]
    show "((\<forall>kvs. v \<noteq> JObj kvs) \<and> (\<forall>xs. v \<noteq> JArr xs)
             \<longrightarrow> analyzeIssue rt create model' request
                   = Inr (analyzeIssueFallback rt request (inTypeError rt ''issue_id'' v)))
          \<and> (v = JArr xs
             \<longrightarrow> analyzeIssue rt create model' request
                   = Inr (analyzeIssueFallback rt request
                            (Error (''Missing required fields in analysis: ''
                                     @ join '', '' required))))
          \<and> (v = JObj kvs \<and> \<not> set required \<subseteq> fst ` set kvs
             \<longrightarrow> analyzeIssue rt create model' request
                   = Inr (analyzeIssueFallback rt request
                            (Error (''Missing required fields in analysis: ''
                                     @ join '', '' (filter (\<lambda>f. f \<notin> fst ` set kvs) required)))))
          \<and> (v = JObj kvs \<and> set required \<subseteq> fst ` set kvs
              \<and> \<not> validSeverity (map_of kvs ''severity_level'')
             \<longrightarrow> analyzeIssue rt create model' request
                   = Inr (analyzeIssueFallback rt request
                            (Error (''Invalid severity_level: ''
                                     @ templateString rt (map_of kvs ''severity_level'')))))
          \<and> (v = JObj kvs \<and> set required \<subseteq> fst ` set kvs
              \<and> validSeverity (map_of kvs ''severity_level'')
              \<and> \<not> validConfidence (map_of kvs ''confidence_score'')
             \<longrightarrow> analyzeIssue rt create model' request
                   = Inr (analyzeIssueFallback rt request
                            (Error (''Invalid confidence_score: ''
                                     @ templateString rt (map_of kvs ''confidence_score'')))))
          \<and> (v = JObj kvs \<and> set required \<subseteq> fst ` set kvs
              \<and> validSeverity (map_of kvs ''severity_level'')
              \<and> validConfidence (map_of kvs ''confidence_score'')
             \<longrightarrow> analyzeIssue rt create model' request = Inr v)"
    proof (intro conjI impI; (elim conjE)?)
      assume "\<forall>kvs. v \<noteq> JObj kvs" "\<forall>xs. v \<noteq> JArr xs"
      then have "validateAnalysis rt v = Inl (inTypeError rt ''issue_id'' v)"
        by (rule validateAnalysis_primitive)
      then show "analyzeIssue rt create model' request
                   = Inr (analyzeIssueFallback rt request (inTypeError rt ''issue_id'' v))"
        by (simp add: r)
    next
      assume "v = JArr xs"
      then show "analyzeIssue rt create model' request
                   = Inr (analyzeIssueFallback rt request
                            (Error (''Missing required fields in analysis: ''
                                     @ join '', '' required)))"
        by (simp add: r validateAnalysis_array)
    next
      assume "v = JObj kvs" "\<not> set required \<subseteq> fst ` set kvs"
      then show "analyzeIssue rt create model' request
                   = Inr (analyzeIssueFallback rt request
                            (Error (''Missing required fields in analysis: ''
                                     @ join '', '' (filter (\<lambda>f. f \<notin> fst ` set kvs) required))))"
        by (simp add: r validateAnalysis_object)
    next
      assume "v = JObj kvs" "set required \<subseteq> fst ` set kvs"
        "\<not> validSeverity (map_of kvs ''severity_level'')"
      then show "analyzeIssue rt create model' request
                   = Inr (analyzeIssueFallback rt request
                            (Error (''Invalid severity_level: ''
                                     @ templateString rt (map_of kvs ''severity_level''))))"
        by (simp add: r validateAnalysis_object)
    next
      assume "v = JObj kvs" "set required \<subseteq> fst ` set kvs"
        "validSeverity (map_of kvs ''severity_level'')"
        "\<not> validConfidence (map_of kvs ''confidence_score'')"
      then show "analyzeIssue rt create model' request
                   = Inr (analyzeIssueFallback rt request
                            (Error (''Invalid confidence_score: ''
                                     @ templateString rt (map_of kvs ''confidence_score''))))"
        by (simp add: r validateAnalysis_object)
    next
      assume "v = JObj kvs" "set required \<subseteq> fst ` set kvs"
        "validSeverity (map_of kvs ''severity_level'')"
        "validConfidence (map_of kvs ''confidence_score'')"
      then show "analyzeIssue rt create model' request = Inr v"
        by (simp add: r validateAnalysis_object)
    qed
  qed
  show ?thesis
    by (rule conjI[OF total conjI[OF transport conjI[OF empty conjI[OF unparseable
          conjI[OF validated conjI[OF validSeverity_iff conjI[OF validConfidence_iff
          conjI[OF required_def analyzeIssueFallback_fields]]]]]]]])
qed


theorem analyzeIssue_never_raises_witness:
  "analyzeIssue exampleRuntime (\<lambda>params. Inr (exampleCompletion overconfidentText))
     ''gpt-4o-mini'' (exampleRequest 1)
   = Inr (analyzeIssueFallback exampleRuntime (exampleRequest 1)
            (Error ''Invalid confidence_score: 150''))
   \<and> getProp ''reasoning''
        (analyzeIssueFallback exampleRuntime (exampleRequest 1)
           (Error ''Invalid confidence_score: 150''))
     = Some (JStr ''Failed to analyze with OpenAI: Error: Invalid confidence_score: 150. Manual review required.'')
   \<and> analyzeIssue exampleRuntime (\<lambda>params. Inr (exampleCompletion incompleteText))
       ''gpt-4o-mini'' (exampleRequest 1)
     = Inr (analyzeIssueFallback exampleRuntime (exampleRequest 1)
              (Error ''Missing required fields in analysis: reasoning''))"
proof -
  have replied: "(\<lambda>params. Inr (exampleCompletion reply))
                   (analysisParams ''gpt-4o-mini'' (exampleRequest 1))
                 = (Inr (exampleCompletion reply) :: js_error + chat_completion)" for reply
    by simp
  have content': "completionContent (exampleCompletion reply) = Some reply" for reply
    by (simp add: completionContent_def exampleCompletion_def)
  have nonempty: "overconfidentText \<noteq> []"
    by (simp add: overconfidentText_def)
  have parsed: "JSON_parse exampleRuntime overconfidentText = Inr overconfidentAnalysis"
    by (simp add: exampleRuntime_def exampleParse_def overconfidentText_def
          validAnalysisText_def)
  have fields': "set required \<subseteq> fst ` set
      [(''issue_id'', JNum 101), (''is_critical'', JBool True),
       (''severity_level'', JStr ''high''), (''reasoning'', JStr ''Crashes on click''),
       (''affected_functionality'', JArr [JStr ''click'']),
       (''impact_description'', JStr ''Unusable''), (''confidence_score'', JNum 150)]"
    by (simp add: required_def)
  have shown: "templateString exampleRuntime (Some (JNum 150)) = ''150''"
    by (simp add: templateString_def exampleRuntime_def showInt_def showNat.simps)
  have overconfident:
    "analyzeIssue exampleRuntime (\<lambda>params. Inr (exampleCompletion overconfidentText))
       ''gpt-4o-mini'' (exampleRequest 1)
     = Inr (analyzeIssueFallback exampleRuntime (exampleRequest 1)
              (Error ''Invalid confidence_score: 150''))
     \<and> getProp ''reasoning''
          (analyzeIssueFallback exampleRuntime (exampleRequest 1)
             (Error ''Invalid confidence_score: 150''))
       = Some (JStr ''Failed to analyze with OpenAI: Error: Invalid confidence_score: 150. Manual review required.'')"
    using analyzeIssue_never_raises[
        where rt = exampleRuntime
          and create = "\<lambda>params. Inr (exampleCompletion overconfidentText)"
          and model' = "''gpt-4o-mini''" and request = "exampleRequest 1"
          and completion = "exampleCompletion overconfidentText"
          and reply = overconfidentText and v = overconfidentAnalysis
          and e = "Error ''Invalid confidence_score: 150''"
          and kvs = "[(''issue_id'', JNum 101), (''is_critical'', JBool True),
                      (''severity_level'', JStr ''high''),
                      (''reasoning'', JStr ''Crashes on click''),
                      (''affected_functionality'', JArr [JStr ''click'']),
                      (''impact_description'', JStr ''Unusable''),
                      (''confidence_score'', JNum 150)]"]
      replied[of overconfidentText] content'[of overconfidentText] nonempty parsed fields' shown
    by (simp add: overconfidentAnalysis_def validSeverity_def validConfidence_def
          errorString_def Error_def)
  have nonempty': "incompleteText \<noteq> []"
    by (simp add: incompleteText_def)
  have parsed': "JSON_parse exampleRuntime incompleteText = Inr incompleteAnalysis"
    by (simp add: exampleRuntime_def exampleParse_def incompleteText_def overconfidentText_def
          validAnalysisText_def)
  have incomplete:
    "analyzeIssue exampleRuntime (\<lambda>params. Inr (exampleCompletion incompleteText))
       ''gpt-4o-mini'' (exampleRequest 1)
     = Inr (analyzeIssueFallback exampleRuntime (exampleRequest 1)
              (Error ''Missing required fields in analysis: reasoning''))"
    using analyzeIssue_never_raises[
        where rt = exampleRuntime
          and create = "\<lambda>params. Inr (exampleCompletion incompleteText)"
          and model' = "''gpt-4o-mini''" and request = "exampleRequest 1"
          and completion = "exampleCompletion incompleteText"
          and reply = incompleteText and v = incompleteAnalysis
          and kvs = "[(''issue_id'', JNum 101), (''is_critical'', JBool True),
                      (''severity_level'', JStr ''high''),
                      (''affected_functionality'', JArr [JStr ''click'']),
                      (''impact_description'', JStr ''Unusable''),
                      (''confidence_score'', JNum 90)]"]
      replied[of incompleteText] content'[of incompleteText] nonempty' parsed'
    by (simp add: incompleteAnalysis_def required_def)
  show ?thesis
    using overconfident incomplete by (simp only: simp_thms)
qed
section \<open>Properties of the report counts\<close>

lemma length_filter_card_index:
  "length (filter P xs) = card {i. i < length xs \<and> P (xs ! i)}"
  by (rule length_filter_conv_card)

text \<open>
  C3. For every sequence of paired results, \<open>critical_issues\<close> is the number of positions
  whose pair is critical-flagged or of severity critical, \<open>high_priority_issues\<close> is the
  number of positions whose pair has severity high and is not critical-flagged, no pair
  satisfies both predicates, and a pair with the flag set and severity high is counted as
  critical and not as high priority.
\<close>

theorem createReport_counts_disjoint:
  "critical_issues (createReport rt componentName issues' analyses summary') =
     int (card {i. i < length analyses \<and>
            (is_critical (analysis (analyses ! i))
              \<or> severity_level (analysis (analyses ! i)) = Critical)})
   \<and> high_priority_issues (createReport rt componentName issues' analyses summary') =
     int (card {i. i < length analyses \<and>
            (severity_level (analysis (analyses ! i)) = High
              \<and> \<not> is_critical (analysis (analyses ! i)))})
   \<and> {i. i < length analyses \<and> isCriticalItem (analyses ! i)}
       \<inter> {i. i < length analyses \<and> isHighPriorityItem (analyses ! i)} = {}
   \<and> (is_critical (analysis a) \<and> severity_level (analysis a) = High
         \<longrightarrow> isCriticalItem a \<and> \<not> isHighPriorityItem a)"
proof -
  have crit: "critical_issues (createReport rt componentName issues' analyses summary') =
      int (length (filter isCriticalItem analyses))"
    by (simp add: createReport_def Let_def)
  have hi: "high_priority_issues (createReport rt componentName issues' analyses summary') =
      int (length (filter isHighPriorityItem analyses))"
    by (simp add: createReport_def Let_def)
  have disj: "{i. i < length analyses \<and> isCriticalItem (analyses ! i)}
       \<inter> {i. i < length analyses \<and> isHighPriorityItem (analyses ! i)} = {}"
    by (auto simp: isCriticalItem_def isHighPriorityItem_def)
  have ex: "is_critical (analysis a) \<and> severity_level (analysis a) = High
         \<longrightarrow> isCriticalItem a \<and> \<not> isHighPriorityItem a"
    by (simp add: isCriticalItem_def isHighPriorityItem_def)
  show ?thesis
    using crit hi disj ex
    by (simp add: length_filter_card_index isCriticalItem_def isHighPriorityItem_def)
qed

theorem createReport_counts_disjoint_witness:
  "critical_issues (createReport exampleRuntime ''button'' [exampleIssue 7]
       [exampleAnalyzed 7 True High] exampleSummary) = 1
   \<and> high_priority_issues (createReport exampleRuntime ''button'' [exampleIssue 7]
       [exampleAnalyzed 7 True High] exampleSummary) = 0
   \<and> is_critical (analysis (exampleAnalyzed 7 True High))
   \<and> severity_level (analysis (exampleAnalyzed 7 True High)) = High
   \<and> isCriticalItem (exampleAnalyzed 7 True High)
   \<and> \<not> isHighPriorityItem (exampleAnalyzed 7 True High)"
  using createReport_counts_disjoint[of exampleRuntime "''button''" "[exampleIssue 7]"
      "[exampleAnalyzed 7 True High]" exampleSummary "exampleAnalyzed 7 True High"]
  by (simp add: createReport_def exampleAnalyzed_def isCriticalItem_def
        isHighPriorityItem_def)
section \<open>Failure isolation in a chunk\<close>

lemma analyzeIssue_success:
  "create (analysisParams model' request) = Inr completion \<Longrightarrow>
   completionContent completion = Some reply \<Longrightarrow> reply \<noteq> [] \<Longrightarrow>
   JSON_parse rt reply = Inr v \<Longrightarrow> validateAnalysis rt v = Inr () \<Longrightarrow>
   analyzeIssue rt create model' request = Inr v"
  by (simp add: analyzeIssue_def analyzeIssueTry_def)

lemma analyzeIssue_transport_failure:
  "create (analysisParams model' request) = Inl e \<Longrightarrow>
   analyzeIssue rt create model' request = Inr (analyzeIssueFallback rt request e)"
  by (simp add: analyzeIssue_def analyzeIssueTry_def)

lemma zip_upt_five:
  "length xs = 5 \<Longrightarrow>
   zip xs [0..<length xs] = [(xs ! 0, 0), (xs ! 1, 1), (xs ! 2, 2), (xs ! 3, 3), (xs ! 4, 4)]"
  by (rule nth_equalityI) (auto simp: nth_Cons' less_Suc_eq numeral_eq_Suc)

text \<open>
  C4. In a chunk of five requests whose third call throws while the other four calls
  return a reply that parses to a valid analysis, the batch returns five entries: the
  third is the fallback object built from the error and from the third request, and the
  others are the parsed replies of their own calls, in the order of the requests and for
  every assignment of latencies.
\<close>

theorem analyzeIssuesBatch_failure_isolated:
  assumes five: "length requests = 5"
    and failing: "client 2 (analysisParams model' (requests ! 2)) = Inl e"
    and others: "\<And>k. k \<in> {0, 1, 3, 4} \<Longrightarrow>
          client k (analysisParams model' (requests ! k)) = Inr (completion k)
          \<and> completionContent (completion k) = Some (reply k) \<and> reply k \<noteq> []
          \<and> JSON_parse rt (reply k) = Inr (response k)
          \<and> validateAnalysis rt (response k) = Inr ()"
  shows "analyzeIssuesBatch rt client latency model' requests
           = [response 0, response 1, analyzeIssueFallback rt (requests ! 2) e,
              response 3, response 4]"
proof -
  have ok: "analyzeIssue rt (client k) model' (requests ! k) = Inr (response k)"
    if "k \<in> {0, 1, 3, 4}" for k
    using others[OF that] by (auto intro: analyzeIssue_success)
  have bad: "analyzeIssue rt (client 2) model' (requests ! 2)
               = Inr (analyzeIssueFallback rt (requests ! 2) e)"
    using failing by (rule analyzeIssue_transport_failure)
  have "(map Inr (analyzeIssuesBatch rt client latency model' requests)
           :: (js_error + js_value) list)
          = map Inr [response 0, response 1, analyzeIssueFallback rt (requests ! 2) e,
                     response 3, response 4]"
    unfolding analyzeIssuesBatch_entries zip_upt_five[OF five]
    using ok[of 0] ok[of 1] ok[of 3] ok[of 4] bad by simp
  then show ?thesis
    by (rule map_injective) (simp add: inj_on_def)
qed

theorem analyzeIssuesBatch_failure_isolated_witness:
  "analyzeIssuesBatch exampleRuntime flakyClient reversedLatency ''gpt-4o-mini''
     (map exampleRequest [0, 1, 2, 3, 4])
   = [validAnalysis, validAnalysis,
      analyzeIssueFallback exampleRuntime (exampleRequest 2) (Error ''connect ETIMEDOUT''),
      validAnalysis, validAnalysis]"
proof -
  have valid: "validateAnalysis exampleRuntime validAnalysis = Inr ()"
    by (simp add: validateAnalysis_def validAnalysis_def required_def hasField_def
          validSeverity_def validConfidence_def getProp_def)
  have parse: "JSON_parse exampleRuntime validAnalysisText = Inr validAnalysis"
    by (simp add: exampleRuntime_def exampleParse_def)
  have content: "completionContent (exampleCompletion validAnalysisText) = Some validAnalysisText"
    by (simp add: completionContent_def exampleCompletion_def)
  have nonempty: "validAnalysisText \<noteq> []"
    by (simp add: validAnalysisText_def)
  have five: "length (map exampleRequest [0, 1, 2, 3, 4]) = 5"
    by simp
  have failing: "flakyClient 2
      (analysisParams ''gpt-4o-mini'' (map exampleRequest [0, 1, 2, 3, 4] ! 2))
      = Inl (Error ''connect ETIMEDOUT'')"
    by (simp add: flakyClient_def)
  have others: "flakyClient k
        (analysisParams ''gpt-4o-mini'' (map exampleRequest [0, 1, 2, 3, 4] ! k))
        = Inr (exampleCompletion validAnalysisText)
      \<and> completionContent (exampleCompletion validAnalysisText) = Some validAnalysisText
      \<and> validAnalysisText \<noteq> []
      \<and> JSON_parse exampleRuntime validAnalysisText = Inr validAnalysis
      \<and> validateAnalysis exampleRuntime validAnalysis = Inr ()"
    if "k \<in> {0, 1, 3, 4}" for k
    using that valid parse content nonempty by (auto simp: flakyClient_def)
  show ?thesis
    using analyzeIssuesBatch_failure_isolated[
        where completion = "\<lambda>k. exampleCompletion validAnalysisText"
          and reply = "\<lambda>k. validAnalysisText" and response = "\<lambda>k. validAnalysis"
          and latency = reversedLatency and rt = exampleRuntime and client = flakyClient
          and requests = "map exampleRequest [0, 1, 2, 3, 4]"
          and e = "Error ''connect ETIMEDOUT''" and model' = "''gpt-4o-mini''",
        OF five failing others]
    by simp
qed

section \<open>Fallback of the summary rollup\<close>

lemma slice_take: "slice 0 (int k) xs = take k xs"
  by (simp add: slice_def Let_def min_def)

lemma asStringList_strings:
  "asStringList rt (Some (JArr (map JStr xs))) = Some xs"
  by (simp add: asStringList_def comp_def)

lemma asSummary_summaryFallback:
  "asSummary rt (summaryFallback criticalAnalyses) =
     Some \<lparr> most_critical_issues = map (\<lambda>a. title (github_issue a)) (take 3 criticalAnalyses),
            common_problems = [''Unable to analyze common problems due to API error''],
            recommended_actions =
              [''Manual review of issues recommended due to analysis failure''] \<rparr>"
proof -
  have "slice 0 3 criticalAnalyses = take 3 criticalAnalyses"
    using slice_take[of 3 criticalAnalyses] by simp
  moreover have "asStringList rt (Some (JArr (map (\<lambda>a. JStr (title (github_issue a))) xs)))
      = Some (map (\<lambda>a. title (github_issue a)) xs)" for xs
    using asStringList_strings[of rt "map (\<lambda>a. title (github_issue a)) xs"]
    by (simp add: comp_def)
  ultimately show ?thesis
    by (simp add: asSummary_def summaryFallback_def getProp_def asStringList_def)
qed

lemma generateComponentSummary_cases:
  "generateComponentSummary rt create model' componentName analyses =
     Inr (case generateComponentSummaryTry rt create model'
                 (summaryPrompt rt componentName (filter isCriticalItem analyses)
                    (filter (\<lambda>a. severity_level (analysis a) = High) analyses)) of
            Inr parsed \<Rightarrow> parsed
          | Inl error \<Rightarrow> summaryFallback (filter isCriticalItem analyses))"
  by (simp add: generateComponentSummary_def Let_def split: sum.split)

text \<open>
  C5 (as amended). When the call of the summary rollup throws,
  \<^verbatim>\<open>generateComponentSummary\<close> is still fulfilled, with the fallback object whose
  \<^verbatim>\<open>most_critical_issues\<close> are the titles of the first three critical analyses, whose
  \<^verbatim>\<open>common_problems\<close> is the one entry \<^verbatim>\<open>Unable to analyze common problems due to API error\<close>
  and whose \<^verbatim>\<open>recommended_actions\<close> is the one entry
  \<^verbatim>\<open>Manual review of issues recommended due to analysis failure\<close>; the analyzer reads
  this object as its summary.
\<close>

theorem generateComponentSummary_fallback:
  "(summaryCall services
        (summaryParams (openaiModel services)
           (summaryPrompt rt componentName (filter isCriticalItem analyses)
              (filter (\<lambda>a. severity_level (analysis a) = High) analyses))) = Inl e
      \<longrightarrow>
        generateComponentSummary rt (summaryCall services) (openaiModel services)
            componentName analyses
          = Inr (JObj
              [(''most_critical_issues'',
                  JArr (map (\<lambda>a. JStr (title (github_issue a)))
                          (take 3 (filter isCriticalItem analyses)))),
               (''common_problems'',
                  JArr [JStr ''Unable to analyze common problems due to API error'']),
               (''recommended_actions'',
                  JArr [JStr ''Manual review of issues recommended due to analysis failure''])])
        \<and> generateSummary rt services componentName analyses
          = Some \<lparr> most_critical_issues =
                     map (\<lambda>a. title (github_issue a))
                       (take 3 (filter isCriticalItem analyses)),
                   common_problems = [''Unable to analyze common problems due to API error''],
                   recommended_actions =
                     [''Manual review of issues recommended due to analysis failure''] \<rparr>)
   \<and> (\<exists>v. generateComponentSummary rt (summaryCall services) (openaiModel services)
              componentName analyses = Inr v)"
proof -
  let ?prompt = "summaryPrompt rt componentName (filter isCriticalItem analyses)
              (filter (\<lambda>a. severity_level (analysis a) = High) analyses)"
  have total: "\<exists>v. generateComponentSummary rt (summaryCall services) (openaiModel services)
              componentName analyses = Inr v"
    by (simp add: generateComponentSummary_cases)
  have failed: "generateComponentSummary rt (summaryCall services) (openaiModel services)
            componentName analyses = Inr (summaryFallback (filter isCriticalItem analyses))"
    if "summaryCall services (summaryParams (openaiModel services) ?prompt) = Inl e"
    using that by (simp add: generateComponentSummary_cases generateComponentSummaryTry_def)
  have object: "summaryFallback (filter isCriticalItem analyses)
      = JObj
          [(''most_critical_issues'',
              JArr (map (\<lambda>a. JStr (title (github_issue a)))
                      (take 3 (filter isCriticalItem analyses)))),
           (''common_problems'',
              JArr [JStr ''Unable to analyze common problems due to API error'']),
           (''recommended_actions'',
              JArr [JStr ''Manual review of issues recommended due to analysis failure''])]"
    using slice_take[of 3 "filter isCriticalItem analyses"]
    by (simp add: summaryFallback_def)
  have typed: "generateSummary rt services componentName analyses
      = asSummary rt (summaryFallback (filter isCriticalItem analyses))"
    if "summaryCall services (summaryParams (openaiModel services) ?prompt) = Inl e"
    using failed[OF that] by (simp add: generateSummary_def)
  show ?thesis
    using total failed typed object asSummary_summaryFallback[of rt "filter isCriticalItem analyses"]
    by (simp only: simp_thms) simp
qed

theorem generateComponentSummary_fallback_witness:
  "summaryCall failingBackends
     (summaryParams (openaiModel failingBackends)
        (summaryPrompt exampleRuntime ''button''
           (filter isCriticalItem [exampleAnalyzed 7 False Low])
           (filter (\<lambda>a. severity_level (analysis a) = High) [exampleAnalyzed 7 False Low])))
     = Inl (Error ''503 Service Unavailable'')
   \<and> generateSummary exampleRuntime failingBackends ''button'' [exampleAnalyzed 7 False Low]
     = Some \<lparr> most_critical_issues = [],
              common_problems = [''Unable to analyze common problems due to API error''],
              recommended_actions =
                [''Manual review of issues recommended due to analysis failure''] \<rparr>"
  using generateComponentSummary_fallback[of failingBackends exampleRuntime "''button''"
      "[exampleAnalyzed 7 False Low]" "Error ''503 Service Unavailable''"]
  by (simp add: failingBackends_def isCriticalItem_def exampleAnalyzed_def)

text \<open>
  The fallback is not a fixed object with two empty lists: with one critical analysis
  and a summary call that throws, the summary lists the title of that analysis and one
  common problem.
\<close>

theorem generateComponentSummary_fallback_counterexample:
  "summaryCall failingBackends
     (summaryParams (openaiModel failingBackends)
        (summaryPrompt exampleRuntime ''button''
           (filter isCriticalItem [exampleAnalyzed 7 True High])
           (filter (\<lambda>a. severity_level (analysis a) = High) [exampleAnalyzed 7 True High])))
     = Inl (Error ''503 Service Unavailable'')
   \<and> generateSummary exampleRuntime failingBackends ''button'' [exampleAnalyzed 7 True High]
     = Some \<lparr> most_critical_issues = [''Issue 7''],
              common_problems = [''Unable to analyze common problems due to API error''],
              recommended_actions =
                [''Manual review of issues recommended due to analysis failure''] \<rparr>
   \<and> \<not> (\<exists>s. generateSummary exampleRuntime failingBackends ''button''
                 [exampleAnalyzed 7 True High] = Some s
              \<and> most_critical_issues s = [] \<and> common_problems s = [])"
proof -
  have call: "summaryCall failingBackends p = Inl (Error ''503 Service Unavailable'')" for p
    by (simp add: failingBackends_def)
  have "generateSummary exampleRuntime failingBackends ''button'' [exampleAnalyzed 7 True High]
     = asSummary exampleRuntime (summaryFallback (filter isCriticalItem [exampleAnalyzed 7 True High]))"
    by (simp add: generateSummary_def generateComponentSummary_cases
          generateComponentSummaryTry_def call)
  also have "\<dots> = Some \<lparr> most_critical_issues = [''Issue 7''],
         common_problems = [''Unable to analyze common problems due to API error''],
         recommended_actions =
           [''Manual review of issues recommended due to analysis failure''] \<rparr>"
    by (simp add: asSummary_summaryFallback isCriticalItem_def exampleAnalyzed_def
          exampleIssue_def showInt_def showNat.simps)
  finally show ?thesis
    using call by simp
qed

section \<open>The search, unfolded\<close>

lemma searchComponentIssues_single:
  "searchComponentIssues search componentName options =
     (case search \<lparr> q = ''repo:shadcn-ui/ui is:issue state:open '' @ componentName,
                     sort' = ''updated'', order = ''desc'',
                     per_page = min (case opt_maxIssues options of None \<Rightarrow> 100 | Some m \<Rightarrow> m)
                                  100 \<rparr> of
        Inl error \<Rightarrow> Inl (Error (''Failed to search GitHub issues: '' @ errorString error))
      | Inr items \<Rightarrow>
          Inr (slice 0 (case opt_maxIssues options of None \<Rightarrow> 100 | Some m \<Rightarrow> m)
                 (map transformIssue (filter (\<lambda>item. pull_request item = None) items))))"
  by (simp add: searchComponentIssues_def searchQueries_def Let_def split: sum.split)

lemma transformIssue_exampleItem:
  "transformIssue (exampleItem n st pr) = (exampleIssue n)\<lparr>state := st\<rparr>"
  by (simp add: transformIssue_def exampleItem_def exampleIssue_def)

lemma exampleItem_fields:
  "pull_request (exampleItem n st pr) = pr" "number (exampleItem n st pr) = n"
  by (simp_all add: exampleItem_def)

lemma exampleIssue_fields:
  "(exampleIssue n)\<lparr>state := StateOpen\<rparr> = exampleIssue n" "number (exampleIssue n) = n"
  by (simp_all add: exampleIssue_def)

lemma slice_prefix: "0 \<le> m \<Longrightarrow> slice 0 m xs = take (nat m) xs"
  by (simp add: slice_def Let_def min_def)


section \<open>The report of a search without results\<close>

text \<open>
  C6. When the issue search returns no issue, and so when the search backend answers
  with an empty response, \<^verbatim>\<open>analyzeComponent\<close> does not fail: it returns the report
  with \<^verbatim>\<open>total_issues\<close>, \<^verbatim>\<open>critical_issues\<close> and \<^verbatim>\<open>high_priority_issues\<close> 0, no
  issues, and a summary whose only recommended action says that the component appears
  to be stable.
\<close>

theorem analyzeComponent_zero_issues:
  "(searchComponentIssues (searchCall services) (component options)
       \<lparr> opt_maxIssues = Some (case maxIssues options of None \<Rightarrow> 50 | Some m \<Rightarrow> m),
         opt_includeClosedIssues =
           Some (case includeClosedIssues options of None \<Rightarrow> False | Some b \<Rightarrow> b),
         opt_state = None \<rparr> = Inr []
      \<or> searchCall services
            \<lparr> q = ''repo:shadcn-ui/ui is:issue state:open '' @ component options,
              sort' = ''updated'', order = ''desc'',
              per_page = min (case maxIssues options of None \<Rightarrow> 50 | Some m \<Rightarrow> m) 100 \<rparr>
          = Inr [])
   \<longrightarrow> analyzeComponent rt services options
       = Inr (Some \<lparr> component_name = component options,
                     analysis_date = now rt,
                     total_issues = 0,
                     critical_issues = 0,
                     high_priority_issues = 0,
                     issues = [],
                     summary =
                       \<lparr> most_critical_issues = [],
                         common_problems = [],
                         recommended_actions =
                           [''No issues found for '' @ component options
                              @ '' component - it appears to be stable!''] \<rparr> \<rparr>)"
proof
  let ?options = "\<lparr> opt_maxIssues = Some (case maxIssues options of None \<Rightarrow> 50 | Some m \<Rightarrow> m),
         opt_includeClosedIssues =
           Some (case includeClosedIssues options of None \<Rightarrow> False | Some b \<Rightarrow> b),
         opt_state = None \<rparr>"
  assume "searchComponentIssues (searchCall services) (component options) ?options = Inr []
      \<or> searchCall services
            \<lparr> q = ''repo:shadcn-ui/ui is:issue state:open '' @ component options,
              sort' = ''updated'', order = ''desc'',
              per_page = min (case maxIssues options of None \<Rightarrow> 50 | Some m \<Rightarrow> m) 100 \<rparr>
          = Inr []"
  then have none: "searchComponentIssues (searchCall services) (component options) ?options
                     = Inr []"
  proof
    assume "searchComponentIssues (searchCall services) (component options) ?options = Inr []"
    then show ?thesis .
  next
    assume "searchCall services
            \<lparr> q = ''repo:shadcn-ui/ui is:issue state:open '' @ component options,
              sort' = ''updated'', order = ''desc'',
              per_page = min (case maxIssues options of None \<Rightarrow> 50 | Some m \<Rightarrow> m) 100 \<rparr>
          = Inr []"
    then show ?thesis
      by (simp add: searchComponentIssues_single slice_def)
  qed
  have "analyzeComponent rt services options
          = Inr (Some (createEmptyReport rt (component options)))"
    using none by (simp add: analyzeComponent_def Let_def)
  then show "analyzeComponent rt services options
       = Inr (Some \<lparr> component_name = component options,
                     analysis_date = now rt,
                     total_issues = 0,
                     critical_issues = 0,
                     high_priority_issues = 0,
                     issues = [],
                     summary =
                       \<lparr> most_critical_issues = [],
                         common_problems = [],
                         recommended_actions =
                           [''No issues found for '' @ component options
                              @ '' component - it appears to be stable!''] \<rparr> \<rparr>)"
    by (simp add: createEmptyReport_def)
qed

theorem analyzeComponent_zero_issues_witness:
  "analyzeComponent exampleRuntime failingBackends
     \<lparr> component = ''button'', maxIssues = None, includeClosedIssues = None,
       outputFile = None, verbose = None \<rparr>
   = Inr (Some \<lparr> component_name = ''button'',
                 analysis_date = ''2024-05-01T12:00:00.000Z'',
                 total_issues = 0,
                 critical_issues = 0,
                 high_priority_issues = 0,
                 issues = [],
                 summary =
                   \<lparr> most_critical_issues = [],
                     common_problems = [],
                     recommended_actions =
                       [''No issues found for button component - it appears to be stable!''] \<rparr> \<rparr>)"
proof -
  have "searchComponentIssues (searchCall failingBackends) ''button''
       \<lparr> opt_maxIssues = Some 50, opt_includeClosedIssues = Some False, opt_state = None \<rparr>
       = Inr []"
    by (simp add: searchComponentIssues_single failingBackends_def slice_def)
  then show ?thesis
    using analyzeComponent_zero_issues[of failingBackends
        "\<lparr> component = ''button'', maxIssues = None, includeClosedIssues = None,
           outputFile = None, verbose = None \<rparr>" exampleRuntime]
    by (simp add: exampleRuntime_def)
qed


section \<open>The include-closed option\<close>

text \<open>
  C7. With include-closed set the search is to cover the issues of all states, open and
  closed. The code computes the state \<^verbatim>\<open>all\<close> from the option, and
  \<^verbatim>\<open>buildSearchQueries\<close> would place it in every query, but the one query that
  \<^verbatim>\<open>searchComponentIssues\<close> issues has \<^verbatim>\<open>state:open\<close> written into it: with the option
  set, a tracker holding one open and one closed issue yields the open issue only, and
  for every search backend the result is the same with the option set and unset.
\<close>

theorem searchComponentIssues_includeClosed_ignored:
  \<open>searchState \<lparr> opt_maxIssues = Some 10, opt_includeClosedIssues = Some True,
                  opt_state = None \<rparr> = ''all''
   \<and> hd (buildSearchQueries ''button''
            (searchState \<lparr> opt_maxIssues = Some 10, opt_includeClosedIssues = Some True,
                           opt_state = None \<rparr>))
       = ''repo:shadcn-ui/ui is:issue state:all "button" in:title''
   \<and> searchQueries ''button'' = [''repo:shadcn-ui/ui is:issue state:open button'']
   \<and> searchComponentIssues openOnlySearch ''button''
         \<lparr> opt_maxIssues = Some 10, opt_includeClosedIssues = Some True, opt_state = None \<rparr>
       = Inr [exampleIssue 7]
   \<and> searchComponentIssues search componentName
         \<lparr> opt_maxIssues = m, opt_includeClosedIssues = Some True, opt_state = None \<rparr>
       = searchComponentIssues search componentName
           \<lparr> opt_maxIssues = m, opt_includeClosedIssues = Some False, opt_state = None \<rparr>\<close>
proof -
  have state: "searchState \<lparr> opt_maxIssues = Some 10, opt_includeClosedIssues = Some True,
                  opt_state = None \<rparr> = ''all''"
    by (simp add: searchState_def orElse_def)
  have sibling: \<open>hd (buildSearchQueries ''button'' ''all'')
       = ''repo:shadcn-ui/ui is:issue state:all "button" in:title''\<close>
    by (simp add: buildSearchQueries_def)
  have queries: "searchQueries ''button'' = [''repo:shadcn-ui/ui is:issue state:open button'']"
    by (simp add: searchQueries_def)
  have found: "searchComponentIssues openOnlySearch ''button''
         \<lparr> opt_maxIssues = Some 10, opt_includeClosedIssues = Some True, opt_state = None \<rparr>
       = Inr [exampleIssue 7]"
    by (simp add: searchComponentIssues_single openOnlySearch_def slice_prefix
          transformIssue_exampleItem exampleItem_fields exampleIssue_fields)
  have same: "searchComponentIssues search componentName
         \<lparr> opt_maxIssues = m, opt_includeClosedIssues = Some True, opt_state = None \<rparr>
       = searchComponentIssues search componentName
           \<lparr> opt_maxIssues = m, opt_includeClosedIssues = Some False, opt_state = None \<rparr>"
    by (simp add: searchComponentIssues_single split: sum.split)
  show ?thesis
    using state sibling queries found same by (simp only: simp_thms)
qed

section \<open>The result of the search\<close>







section \<open>Rendering and the clock\<close>

lemma formatIssueSection_dates:
  "f (created_at issue) = toLocaleDateString rt (created_at issue) \<Longrightarrow>
   f (updated_at issue) = toLocaleDateString rt (updated_at issue) \<Longrightarrow>
   formatIssueSection (rt\<lparr>toLocaleDateString := f\<rparr>) issue analysis' index emoji compact'
     = formatIssueSection rt issue analysis' index emoji compact'"
  by (simp add: formatIssueSection_def)

lemma issueSections_dates:
  assumes "\<forall>item \<in> set items.
             f (created_at (github_issue item)) = toLocaleDateString rt (created_at (github_issue item))
           \<and> f (updated_at (github_issue item)) = toLocaleDateString rt (updated_at (github_issue item))"
  shows "issueSections (rt\<lparr>toLocaleDateString := f\<rparr>) items emoji compact'
           = issueSections rt items emoji compact'"
proof -
  have "formatIssueSection (rt\<lparr>toLocaleDateString := f\<rparr>) (github_issue item)
            (analysis item) (index + 1) emoji compact'
          = formatIssueSection rt (github_issue item) (analysis item) (index + 1) emoji compact'"
    if "(item, index) \<in> set (zip items [0..<length items])" for item index
    using assms set_zip_leftD[OF that] by (simp add: formatIssueSection_dates)
  then show ?thesis
    unfolding issueSections_def
    by (intro arg_cong[where f = concat] map_cong refl) auto
qed

lemma markdownBody_dates:
  assumes "f (analysis_date report) = toLocaleDateString rt (analysis_date report)"
    and "\<forall>item \<in> set (issues report).
             f (created_at (github_issue item)) = toLocaleDateString rt (created_at (github_issue item))
           \<and> f (updated_at (github_issue item)) = toLocaleDateString rt (updated_at (github_issue item))"
  shows "markdownBody (rt\<lparr>toLocaleDateString := f\<rparr>) report = markdownBody rt report"
proof -
  have sections: "issueSections (rt\<lparr>toLocaleDateString := f\<rparr>) (filter P (issues report))
                     emoji compact'
                  = issueSections rt (filter P (issues report)) emoji compact'"
    for P emoji compact'
    using assms(2) by (intro issueSections_dates) auto
  show ?thesis
    unfolding markdownBody_def Let_def
    by (simp add: sections assms(1))
qed

lemma markdownBody_clock: "markdownBody (rt\<lparr>now := t\<rparr>) report = markdownBody rt report"
proof -
  have "formatIssueSection (rt\<lparr>now := t\<rparr>) issue analysis' index emoji compact'
          = formatIssueSection rt issue analysis' index emoji compact'"
    for issue analysis' index emoji compact'
    by (simp add: formatIssueSection_def)
  then have "issueSections (rt\<lparr>now := t\<rparr>) items emoji compact'
          = issueSections rt items emoji compact'" for items emoji compact'
    by (simp add: issueSections_def)
  then show ?thesis
    unfolding markdownBody_def Let_def by simp
qed

lemma generateMarkdownReport_dates:
  assumes "f (analysis_date report) = toLocaleDateString rt (analysis_date report)"
    and "\<forall>item \<in> set (issues report).
             f (created_at (github_issue item)) = toLocaleDateString rt (created_at (github_issue item))
           \<and> f (updated_at (github_issue item)) = toLocaleDateString rt (updated_at (github_issue item))"
  shows "generateMarkdownReport (rt\<lparr>toLocaleDateString := f\<rparr>) report
           = generateMarkdownReport rt report"
  unfolding generateMarkdownReport_def markdownBody_dates[OF assms] by simp

lemma generateMarkdownReport_clock:
  "generateMarkdownReport (rt\<lparr>now := t\<rparr>) report = generateMarkdownReport rt report"
  unfolding generateMarkdownReport_def markdownBody_clock by simp

lemma ensureDirectory_clock:
  "ensureDirectory (rt\<lparr>now := t\<rparr>) outputPath fs = ensureDirectory rt outputPath fs"
  by (simp add: ensureDirectory_def)

lemma saveReport_clock:
  "saveReport (rt\<lparr>now := t\<rparr>) report outputPath fs = saveReport rt report outputPath fs"
  unfolding saveReport_def ensureDirectory_clock generateMarkdownReport_clock by (rule refl)

lemma saveJsonReport_clock:
  "saveJsonReport (rt\<lparr>now := t\<rparr>) report outputPath fs
     = saveJsonReport rt report outputPath fs"
  by (simp add: saveJsonReport_def ensureDirectory_clock Let_def cong: sum.case_cong)

lemma ensureDirectory_success:
  "ensureDirectory rt outputPath fs = Inr fs1 \<Longrightarrow>
   path_dirname rt outputPath \<in> directories fs1 \<and> denied fs1 = denied fs
   \<and> files fs1 = files fs"
  by (auto simp: ensureDirectory_def Let_def mkdirSync_def split: if_splits)

lemma writeFileSync_success:
  "writeFileSync path data fs1 = Inr fs' \<Longrightarrow>
   fs' = fs1\<lparr>files := (files fs1)(path \<mapsto> data)\<rparr> \<and> path \<notin> denied fs1"
  by (auto simp: writeFileSync_def split: if_splits)

lemma saveJsonReport_success:
  assumes "saveJsonReport rt report outputPath fs = Inr fs'"
  shows "files fs' outputPath = Some (JSON_stringify rt report)
         \<and> saveJsonReport rt report outputPath fs' = Inr fs'"
proof -
  from assms obtain fs1 where dir: "ensureDirectory rt outputPath fs = Inr fs1"
    and written: "writeFileSync outputPath (JSON_stringify rt report) fs1 = Inr fs'"
    by (auto simp: saveJsonReport_def Let_def split: sum.splits)
  note d = ensureDirectory_success[OF dir]
  note w = writeFileSync_success[OF written]
  have content: "files fs' outputPath = Some (JSON_stringify rt report)"
    using w by simp
  have again: "ensureDirectory rt outputPath fs' = Inr fs'"
    using d w by (simp add: ensureDirectory_def Let_def)
  have "fs'\<lparr>files := (files fs')(outputPath \<mapsto> JSON_stringify rt report)\<rparr> = fs'"
    using content by (simp add: map_upd_triv)
  moreover have "outputPath \<notin> denied fs'"
    using w by simp
  ultimately have "writeFileSync outputPath (JSON_stringify rt report) fs' = Inr fs'"
    by (simp add: writeFileSync_def)
  then show ?thesis
    using content again by (simp add: saveJsonReport_def Let_def)
qed

text \<open>
  C9 (as amended). Rendering reads no clock: the markdown document, the saved markdown
  file and the saved JSON file are the same whatever the clock shows. A JSON report
  that has been saved holds \<^verbatim>\<open>JSON.stringify\<close> of the report, and saving the same
  report to the same path again leaves the file system as it is. The document depends
  on the date format of the host only through the dates it prints for timestamps stored
  in the report: \<^verbatim>\<open>analysis_date\<close>, and \<^verbatim>\<open>created_at\<close> and \<^verbatim>\<open>updated_at\<close> of its
  issues.
\<close>

theorem rendering_reads_no_clock:
  "generateMarkdownReport (rt\<lparr>now := t\<rparr>) report = generateMarkdownReport rt report
   \<and> saveReport (rt\<lparr>now := t\<rparr>) report outputPath fs = saveReport rt report outputPath fs
   \<and> saveJsonReport (rt\<lparr>now := t\<rparr>) report outputPath fs
       = saveJsonReport rt report outputPath fs
   \<and> (saveJsonReport rt report outputPath fs = Inr fs'
        \<longrightarrow> files fs' outputPath = Some (JSON_stringify rt report)
            \<and> saveJsonReport rt report outputPath fs' = Inr fs')
   \<and> ((\<forall>d \<in> {analysis_date report}
               \<union> (\<Union>item \<in> set (issues report).
                     {created_at (github_issue item), updated_at (github_issue item)}).
           f d = toLocaleDateString rt d)
        \<longrightarrow> generateMarkdownReport (rt\<lparr>toLocaleDateString := f\<rparr>) report
            = generateMarkdownReport rt report)"
proof -
  have json: "saveJsonReport rt report outputPath fs = Inr fs'
        \<longrightarrow> files fs' outputPath = Some (JSON_stringify rt report)
            \<and> saveJsonReport rt report outputPath fs' = Inr fs'"
    using saveJsonReport_success by blast
  have dates: "(\<forall>d \<in> {analysis_date report}
               \<union> (\<Union>item \<in> set (issues report).
                     {created_at (github_issue item), updated_at (github_issue item)}).
           f d = toLocaleDateString rt d)
        \<longrightarrow> generateMarkdownReport (rt\<lparr>toLocaleDateString := f\<rparr>) report
            = generateMarkdownReport rt report"
  proof
    assume agree: "\<forall>d \<in> {analysis_date report}
               \<union> (\<Union>item \<in> set (issues report).
                     {created_at (github_issue item), updated_at (github_issue item)}).
           f d = toLocaleDateString rt d"
    show "generateMarkdownReport (rt\<lparr>toLocaleDateString := f\<rparr>) report
            = generateMarkdownReport rt report"
      by (rule generateMarkdownReport_dates) (use agree in auto)
  qed
  show ?thesis
    by (rule conjI[OF generateMarkdownReport_clock conjI[OF saveReport_clock
          conjI[OF saveJsonReport_clock conjI[OF json dates]]]])
qed

theorem rendering_reads_no_clock_witness:
  \<open>saveJsonReport exampleRuntime exampleReport ''reports/button-analysis.json'' emptyFilesystem
     = Inr \<lparr> directories = {''reports''},
             files = (\<lambda>path. None)(''reports/button-analysis.json''
                        \<mapsto> ''{ "component_name": "button" }''),
             denied = {} \<rparr>
   \<and> saveJsonReport exampleRuntime exampleReport ''reports/button-analysis.json''
       \<lparr> directories = {''reports''},
         files = (\<lambda>path. None)(''reports/button-analysis.json''
                    \<mapsto> ''{ "component_name": "button" }''),
         denied = {} \<rparr>
     = Inr \<lparr> directories = {''reports''},
             files = (\<lambda>path. None)(''reports/button-analysis.json''
                        \<mapsto> ''{ "component_name": "button" }''),
             denied = {} \<rparr>
   \<and> generateMarkdownReport (exampleRuntime\<lparr>toLocaleDateString := storedDatesOnly\<rparr>)
       exampleReport
     = generateMarkdownReport exampleRuntime exampleReport\<close>
proof -
  let ?saved = \<open>\<lparr> directories = {''reports''},
             files = (\<lambda>path. None)(''reports/button-analysis.json''
                        \<mapsto> ''{ "component_name": "button" }''),
             denied = {} \<rparr>\<close>
  have dir: "path_dirname exampleRuntime ''reports/button-analysis.json'' = ''reports''"
    by (simp add: exampleRuntime_def exampleDirname_def orElse_def)
  have json: \<open>JSON_stringify exampleRuntime exampleReport = ''{ "component_name": "button" }''\<close>
    by (simp add: exampleRuntime_def exampleReport_def createReport_def)
  have first: "saveJsonReport exampleRuntime exampleReport ''reports/button-analysis.json''
                  emptyFilesystem = Inr ?saved"
    by (simp add: saveJsonReport_def ensureDirectory_def mkdirSync_def writeFileSync_def
          emptyFilesystem_def dir json Let_def)
  have agree: "\<forall>d \<in> {analysis_date exampleReport}
               \<union> (\<Union>item \<in> set (issues exampleReport).
                     {created_at (github_issue item), updated_at (github_issue item)}).
           storedDatesOnly d = toLocaleDateString exampleRuntime d"
    by (simp add: exampleReport_def createReport_def exampleAnalyzed_def exampleIssue_def
          storedDatesOnly_def exampleRuntime_def)
  show ?thesis
    using rendering_reads_no_clock[where rt = exampleRuntime
          and t = "''2030-01-01T00:00:00.000Z''" and report = exampleReport
          and outputPath = "''reports/button-analysis.json''" and fs = emptyFilesystem
          and fs' = ?saved and f = storedDatesOnly] first agree
    by (simp only: simp_thms)
qed

text \<open>
  The stored \<^verbatim>\<open>analysis_date\<close> is not the only date of the document: the section of a
  critical issue prints the creation date of the issue, so two reports with the same
  \<^verbatim>\<open>analysis_date\<close> that differ in that date alone render differently.
\<close>

theorem rendering_issue_dates_counterexample:
  "analysis_date (createReport exampleRuntime ''button'' [exampleIssue 7]
       [exampleAnalyzed 7 True High] exampleSummary)
     = analysis_date (createReport exampleRuntime ''button'' [exampleIssue 7]
       [(exampleAnalyzed 7 True High)
          \<lparr>github_issue := (exampleIssue 7)\<lparr>created_at := ''2023-12-31T00:00:00Z''\<rparr>\<rparr>]
       exampleSummary)
   \<and> generateMarkdownReport exampleRuntime (createReport exampleRuntime ''button''
       [exampleIssue 7] [exampleAnalyzed 7 True High] exampleSummary)
     \<noteq> generateMarkdownReport exampleRuntime (createReport exampleRuntime ''button''
       [exampleIssue 7]
       [(exampleAnalyzed 7 True High)
          \<lparr>github_issue := (exampleIssue 7)\<lparr>created_at := ''2023-12-31T00:00:00Z''\<rparr>\<rparr>]
       exampleSummary)"
  by (simp add: generateMarkdownReport_def exampleRuntime_def markdownBody_def Let_def
        createReport_def exampleAnalyzed_def exampleIssue_def isCriticalItem_def
        isHighPriorityItem_def issueSections_def formatIssueSection_def)

section \<open>Statistics of a report\<close>

subsection \<open>Rounding to binary64\<close>

lemma roundHalfEven_close: "\<bar>of_int (roundHalfEven y) - y\<bar> \<le> 1 / 2"
proof -
  define f where "f = \<lfloor>y\<rfloor>"
  have "of_int f \<le> y" "y < of_int f + 1"
    unfolding f_def by linarith+
  then show ?thesis
    unfolding roundHalfEven_def Let_def f_def[symmetric]
    by (auto simp: abs_if)
qed

lemma roundHalfEven_of_int [simp]: "roundHalfEven (of_int n) = n"
  by (simp add: roundHalfEven_def)

lemma binaryExponent_bounds:
  assumes "0 < x"
  shows "2 powi (binaryExponent x) \<le> x \<and> x < 2 powi (binaryExponent x + 1)"
proof (cases "1 \<le> x")
  case True
  define n where "n = \<lfloor>x\<rfloor>"
  have n: "1 \<le> n" "of_int n \<le> x" "x < of_int n + 1"
    unfolding n_def using True by (simp_all add: le_floor_iff) linarith
  define b where "b = bitlen n"
  from n(1) have b: "2 ^ nat (b - 1) \<le> n" "n < 2 ^ nat b"
    unfolding b_def using bitlen_bounds[of n] by auto
  have b1: "1 \<le> b"
    using b(2) n(1) by (cases "b \<le> 0") auto
  have e: "binaryExponent x = b - 1"
    using True by (simp add: binaryExponent_def n_def b_def)
  have "(2::rat) ^ nat (b - 1) \<le> of_int n"
    using b(1) by (metis of_int_le_iff of_int_numeral of_int_power)
  then have "(2::rat) ^ nat (b - 1) \<le> x"
    using n(2) by (rule order_trans)
  moreover have "(2::rat) powi (b - 1) = 2 ^ nat (b - 1)"
    using b1 by (simp add: power_int_def)
  ultimately have lo: "2 powi (b - 1) \<le> x"
    by (simp only:)
  have "n + 1 \<le> 2 ^ nat b"
    using b(2) by simp
  then have "(of_int (n + 1) :: rat) \<le> 2 ^ nat b"
    by (metis of_int_le_iff of_int_numeral of_int_power)
  then have "x < 2 ^ nat b"
    using n(3) by (simp only: of_int_add of_int_1)
  moreover have "(2::rat) powi b = 2 ^ nat b"
    using b1 by (simp add: power_int_def)
  ultimately have hi: "x < 2 powi b"
    by (simp only:)
  show ?thesis
    using lo hi by (simp add: e)
next
  case False
  define y where "y = 1 / x"
  have y1: "1 < y"
    using False assms by (simp add: y_def)
  define m where "m = \<lceil>y\<rceil> - 1"
  have m: "1 \<le> m" "of_int m < y" "y \<le> of_int m + 1"
    unfolding m_def using y1 by (simp_all add: less_ceiling_iff) linarith+
  define b where "b = bitlen m"
  from m(1) have b: "2 ^ nat (b - 1) \<le> m" "m < 2 ^ nat b"
    unfolding b_def using bitlen_bounds[of m] by auto
  have b1: "1 \<le> b"
    using b(2) m(1) by (cases "b \<le> 0") auto
  have e: "binaryExponent x = - b"
    using False by (simp add: binaryExponent_def m_def b_def y_def)
  have "(2::rat) ^ nat (b - 1) \<le> of_int m"
    using b(1) by (metis of_int_le_iff of_int_numeral of_int_power)
  then have "(2::rat) ^ nat (b - 1) < y"
    using m(2) by (rule le_less_trans)
  then have "x * 2 ^ nat (b - 1) < 1"
    using assms by (simp add: y_def field_simps)
  then have "x < 1 / 2 ^ nat (b - 1)"
    by (simp add: field_simps)
  moreover have "(2::rat) powi (- b + 1) = 1 / 2 ^ nat (b - 1)"
    using b1 power_int_minus_divide[of "2::rat" "b - 1"] by (simp add: power_int_nonneg_exp)
  ultimately have hi: "x < 2 powi (- b + 1)"
    by (simp only:)
  have "m + 1 \<le> 2 ^ nat b"
    using b(2) by simp
  then have "(of_int (m + 1) :: rat) \<le> 2 ^ nat b"
    by (metis of_int_le_iff of_int_numeral of_int_power)
  then have "y \<le> 2 ^ nat b"
    using m(3) by (simp only: of_int_add of_int_1)
  then have "1 \<le> x * 2 ^ nat b"
    using assms by (simp add: y_def field_simps)
  then have "1 / 2 ^ nat b \<le> x"
    by (simp add: field_simps)
  moreover have "(2::rat) powi (- b) = 1 / 2 ^ nat b"
    using b1 power_int_minus_divide[of "2::rat" b] by (simp add: power_int_nonneg_exp)
  ultimately have lo: "2 powi (- b) \<le> x"
    by (simp only:)
  show ?thesis
    using lo hi by (simp add: e)
qed

lemma binaryExponent_unique:
  assumes "2 powi e \<le> x" and "x < 2 powi (e + 1)"
  shows "binaryExponent x = e"
proof -
  have pos: "0 < x"
    using assms(1) by (rule less_le_trans[rotated]) simp
  note b = binaryExponent_bounds[OF pos]
  have "(2::rat) powi e < 2 powi (binaryExponent x + 1)"
    using assms(1) b by linarith
  then have 1: "e < binaryExponent x + 1"
    using power_int_increasing[of "binaryExponent x + 1" e "2::rat"] by (cases "e < binaryExponent x + 1") auto
  have "(2::rat) powi (binaryExponent x) < 2 powi (e + 1)"
    using assms(2) b by linarith
  then have 2: "binaryExponent x < e + 1"
    using power_int_increasing[of "e + 1" "binaryExponent x" "2::rat"] by (cases "binaryExponent x < e + 1") auto
  show ?thesis
    using 1 2 by simp
qed

lemma power_int_less_exp:
  assumes "(2::rat) powi a < 2 powi b"
  shows "a < b"
  using power_int_increasing[of b a "2::rat"] assms by (cases "a < b") auto

lemma roundDouble_positive:
  assumes pos: "0 < x" and e: "binaryExponent x = e" and lo: "- 1022 \<le> e"
    and m: "roundHalfEven (x / 2 powi (e - 52)) = m"
    and fin: "of_int m * 2 powi (e - 52) < (2::rat) powi 1024"
  shows "roundDouble x = Finite (of_int m * 2 powi (e - 52))"
proof -
  have "max e (- 1022) = e"
    using lo by simp
  then show ?thesis
    using pos e m fin
    by (simp add: roundDouble_def Let_def del: power_int_numeral)
qed

lemma roundDouble_normal_value:
  assumes lo: "2 powi (- 1022) \<le> x" and hi: "x < 2 powi 1023"
  shows "roundDouble x
           = Finite (of_int (roundHalfEven (x / 2 powi (binaryExponent x - 52)))
                       * 2 powi (binaryExponent x - 52))
         \<and> \<bar>of_int (roundHalfEven (x / 2 powi (binaryExponent x - 52)))
                * 2 powi (binaryExponent x - 52) - x\<bar> \<le> x / 2 ^ 53"
proof -
  have pos: "0 < x"
    using lo by (rule less_le_trans[rotated]) simp
  define e where "e = binaryExponent x"
  have b: "2 powi e \<le> x" "x < 2 powi (e + 1)"
    using binaryExponent_bounds[OF pos] by (simp_all add: e_def)
  have "(2::rat) powi (- 1022) < 2 powi (e + 1)"
    using lo b(2) by (rule le_less_trans)
  then have e_lo: "- 1022 \<le> e"
    using power_int_less_exp by fastforce
  define ulp :: rat where "ulp = 2 powi (e - 52)"
  have ulp_pos: "0 < ulp"
    by (simp add: ulp_def)
  have ulp_e: "ulp * 2 ^ 52 = 2 powi e"
    using power_int_add[of "2::rat" "e - 52" 52] by (simp add: ulp_def)
  define m where "m = roundHalfEven (x / ulp)"
  have "\<bar>of_int m - x / ulp\<bar> \<le> 1 / 2"
    unfolding m_def by (rule roundHalfEven_close)
  then have "\<bar>of_int m - x / ulp\<bar> * ulp \<le> 1 / 2 * ulp"
    using ulp_pos by (simp add: mult_right_mono)
  moreover have "(of_int m - x / ulp) * ulp = of_int m * ulp - x"
    using ulp_pos by (simp add: field_simps)
  then have "\<bar>of_int m - x / ulp\<bar> * ulp = \<bar>of_int m * ulp - x\<bar>"
    using ulp_pos by (metis abs_mult abs_of_pos)
  ultimately have close: "\<bar>of_int m * ulp - x\<bar> \<le> ulp / 2"
    by simp
  have "ulp * 2 ^ 52 \<le> x"
    using b(1) ulp_e by simp
  then have ulp_x: "ulp / 2 \<le> x / 2 ^ 53"
    by simp
  have close_x: "\<bar>of_int m * ulp - x\<bar> \<le> x / 2 ^ 53"
    using close ulp_x by (rule order_trans)
  have "(2::rat) powi 1024 = 2 * 2 powi 1023"
    by simp
  moreover have "of_int m * ulp - x \<le> x / 2 ^ 53"
    using close_x by (simp only: abs_le_iff)
  moreover have "x / 2 ^ 53 \<le> x"
    using pos by simp
  ultimately have fin: "of_int m * ulp < 2 powi 1024"
    using hi by (simp only:)
  have m': "roundHalfEven (x / 2 powi (e - 52)) = m"
    by (simp only: m_def ulp_def)
  have fin': "of_int m * 2 powi (e - 52) < (2::rat) powi 1024"
    using fin by (simp only: ulp_def)
  have "roundDouble x = Finite (of_int m * ulp)"
    unfolding ulp_def
    by (rule roundDouble_positive[OF pos e_def[symmetric] e_lo m' fin'])
  then show ?thesis
    using close_x by (simp only: m_def ulp_def e_def simp_thms)
qed

lemma roundDouble_normal:
  assumes lo: "2 powi (- 1022) \<le> x" and hi: "x < 2 powi 1023"
  shows "\<exists>r. roundDouble x = Finite r \<and> \<bar>r - x\<bar> \<le> x / 2 ^ 53"
  using roundDouble_normal_value[OF assms] by blast

lemma roundDouble_value:
  assumes e: "2 powi e \<le> x" "x < 2 powi (e + 1)" and range: "- 1022 \<le> e" "e < 1023"
    and m: "roundHalfEven (x / 2 powi (e - 52)) = m"
  shows "roundDouble x = Finite (of_int m * 2 powi (e - 52))"
proof -
  have "(2::rat) powi (- 1022) \<le> 2 powi e"
    using range(1) by (intro power_int_increasing) simp_all
  then have lo: "2 powi (- 1022) \<le> x"
    using e(1) by (rule order_trans)
  have "(2::rat) powi (e + 1) \<le> 2 powi 1023"
    using range(2) by (intro power_int_increasing) simp_all
  then have hi: "x < 2 powi 1023"
    using e(2) by (rule less_le_trans[rotated])
  show ?thesis
    using roundDouble_normal_value[OF lo hi] binaryExponent_unique[OF e] m by (simp only:)
qed

lemma roundDouble_0 [simp]: "roundDouble 0 = Finite 0"
  by (simp add: roundDouble_def)

lemma roundDouble_of_int:
  assumes "0 \<le> n" and "n < 2 ^ 53"
  shows "roundDouble (of_int n) = Finite (of_int n)"
proof (cases "n = 0")
  case True
  then show ?thesis by simp
next
  case False
  then have n1: "1 \<le> n"
    using assms(1) by simp
  define x :: rat where "x = of_int n"
  have pos: "0 < x"
    using n1 by (simp add: x_def)
  define e where "e = binaryExponent x"
  have b: "2 powi e \<le> x" "x < 2 powi (e + 1)"
    using binaryExponent_bounds[OF pos] by (simp_all add: e_def)
  have "(2::rat) powi 0 \<le> x"
    using n1 by (simp add: x_def)
  then have "(2::rat) powi 0 < 2 powi (e + 1)"
    using b(2) by (rule le_less_trans)
  then have e0: "0 \<le> e"
    using power_int_less_exp by fastforce
  have "x < 2 powi 53"
    using assms(2) by (simp add: x_def)
  then have "(2::rat) powi e < 2 powi 53"
    using b(1) by (rule le_less_trans[rotated])
  then have e52: "e \<le> 52"
    using power_int_less_exp by fastforce
  define k where "k = nat (52 - e)"
  have ulp: "(2::rat) powi (e - 52) = 1 / 2 ^ k"
    using e52 power_int_minus_divide[of "2::rat" "52 - e"]
    by (simp add: k_def power_int_nonneg_exp)
  have "x / 2 powi (e - 52) = of_int (n * 2 ^ k)"
    by (simp add: ulp x_def)
  then have m: "roundHalfEven (x / 2 powi (e - 52)) = n * 2 ^ k"
    by (simp only: roundHalfEven_of_int)
  have r: "of_int (n * 2 ^ k) * (2::rat) powi (e - 52) = x"
    by (simp add: ulp x_def)
  have "x < 2 powi 1024"
    using \<open>x < 2 powi 53\<close> power_int_increasing[of 53 1024 "2::rat"] by (simp del: power_int_numeral)
  then have fin: "of_int (n * 2 ^ k) * (2::rat) powi (e - 52) < 2 powi 1024"
    by (simp only: r)
  have "roundDouble x = Finite (of_int (n * 2 ^ k) * 2 powi (e - 52))"
    using e0 by (intro roundDouble_positive[OF pos e_def[symmetric] _ m fin]) simp
  then show ?thesis
    by (simp only: r) (simp add: x_def)
qed

lemma roundHalfEven_unique:
  assumes "\<bar>of_int m - y\<bar> < 1 / 2"
  shows "roundHalfEven y = m"
proof -
  have "\<bar>of_int (roundHalfEven y) - y\<bar> \<le> 1 / 2"
    by (rule roundHalfEven_close)
  then have "\<bar>(of_int (roundHalfEven y) :: rat) - of_int m\<bar> < 1"
    using assms by linarith
  then have "\<bar>(of_int (roundHalfEven y - m) :: rat)\<bar> < of_int 1"
    by simp
  then have "\<bar>roundHalfEven y - m\<bar> < 1"
    by (simp only: of_int_abs[symmetric] of_int_less_iff)
  then show ?thesis
    by simp
qed

lemma roundDouble_nearest:
  assumes e: "2 powi e \<le> x" "x < 2 powi (e + 1)" and range: "- 1022 \<le> e" "e < 1023"
    and m: "\<bar>of_int m - x / 2 powi (e - 52)\<bar> < 1 / 2"
  shows "roundDouble x = Finite (of_int m * 2 powi (e - 52))"
  using e range roundHalfEven_unique[OF m] by (rule roundDouble_value)

lemma doubleOfInt_exact: "0 \<le> n \<Longrightarrow> n < 2 ^ 53 \<Longrightarrow> doubleOfInt n = Finite (of_int n)"
  by (simp add: doubleOfInt_def roundDouble_of_int)

lemma nearest_integer_gap_up:
  fixes k c t :: int
  assumes t: "0 < t" and far: "(1000 * (of_int c / of_int t) :: rat) + 1 / 2 < of_int k"
  shows "(1000 * (of_int c / of_int t) :: rat) + 1 / 2 + 1 / (2 * of_int t) \<le> of_int k"
proof -
  have "(of_int (2000 * c + t) :: rat) < of_int (2 * t * k)"
    using far t by (simp add: field_simps)
  then have "2000 * c + t < 2 * t * k"
    by (simp only: of_int_less_iff)
  then have "2000 * c + t + 1 \<le> 2 * t * k"
    by simp
  then have "(of_int (2000 * c + t + 1) :: rat) \<le> of_int (2 * t * k)"
    by (simp only: of_int_le_iff)
  then show ?thesis
    using t by (simp add: field_simps)
qed

lemma nearest_integer_gap_down:
  fixes k c t :: int
  assumes t: "0 < t" and far: "of_int k < (1000 * (of_int c / of_int t) :: rat) - 1 / 2"
  shows "of_int k \<le> (1000 * (of_int c / of_int t) :: rat) - 1 / 2 - 1 / (2 * of_int t)"
proof -
  have "(of_int (2 * t * k) :: rat) < of_int (2000 * c - t)"
    using far t by (simp add: field_simps)
  then have "2 * t * k < 2000 * c - t"
    by (simp only: of_int_less_iff)
  then have "2 * t * k \<le> 2000 * c - t - 1"
    by simp
  then have "(of_int (2 * t * k) :: rat) \<le> of_int (2000 * c - t - 1)"
    by (simp only: of_int_le_iff)
  then have "(of_int (2 * t * k) :: rat) / (2 * of_int t)
               \<le> of_int (2000 * c - t - 1) / (2 * of_int t)"
    using t by (intro divide_right_mono) simp_all
  moreover have "(of_int (2 * t * k) :: rat) / (2 * of_int t) = of_int k"
    using t by simp
  moreover have "(of_int (2000 * c - t - 1) :: rat) / (2 * of_int t)
                   = 1000 * (of_int c / of_int t) - 1 / 2 - 1 / (2 * of_int t)"
    using t by (simp add: diff_divide_distrib)
  ultimately show ?thesis
    by (simp only:)
qed

subsection \<open>The percentages\<close>

lemma roundDouble_range:
  assumes "1 / 2 ^ 64 \<le> x" and "x < 2 ^ 64"
  shows "\<exists>r. roundDouble x = Finite r \<and> x - x / 2 ^ 53 \<le> r \<and> r \<le> x + x / 2 ^ 53"
proof -
  have "(2::rat) powi (- 1022) \<le> 2 powi (- 64)"
    by (rule power_int_increasing) simp_all
  also have "\<dots> = 1 / 2 ^ 64"
    by (simp add: power_int_minus_divide)
  finally have lo: "2 powi (- 1022) \<le> x"
    using assms(1) by (rule order_trans)
  have "(2::rat) powi 64 \<le> 2 powi 1023"
    by (rule power_int_increasing) simp_all
  moreover have "(2::rat) powi 64 = 2 ^ 64"
    by simp
  ultimately have hi: "x < 2 powi 1023"
    using assms(2) by (simp only:)
  from roundDouble_normal[OF lo hi] obtain r
    where "roundDouble x = Finite r" and "\<bar>r - x\<bar> \<le> x / 2 ^ 53"
    by blast
  then have "roundDouble x = Finite r" and "r - x \<le> x / 2 ^ 53" and "- (r - x) \<le> x / 2 ^ 53"
    by (simp_all only: abs_le_iff)
  then have "roundDouble x = Finite r \<and> x - x / 2 ^ 53 \<le> r \<and> r \<le> x + x / 2 ^ 53"
    by (intro conjI) linarith+
  then show ?thesis
    by (rule exI)
qed

lemma percentage_rounded:
  fixes c t :: int
  assumes c: "0 \<le> c" "c < 2 ^ 32" and t: "0 < t" "t < 2 ^ 32"
  shows "\<exists>k r. jsDiv (Math_round (jsMul (jsMul (jsDiv (doubleOfInt c) (doubleOfInt t))
                                       (Finite 100)) (Finite 10))) (Finite 10) = Finite r
           \<and> roundDouble (of_int k / 10) = Finite r
           \<and> \<bar>(of_int k :: rat) / 10 - of_int c / of_int t * 100\<bar> \<le> 1 / 20
           \<and> \<bar>r - of_int k / 10\<bar> \<le> of_int k / 10 / 2 ^ 53"
proof -
  have dc: "doubleOfInt c = Finite (of_int c)"
    using c by (intro doubleOfInt_exact) simp_all
  have dt: "doubleOfInt t = Finite (of_int t)"
    using t by (intro doubleOfInt_exact) simp_all
  have tnz: "(of_int t :: rat) \<noteq> 0"
    using t by simp
  show ?thesis
  proof (cases "c = 0")
    case True
    have "jsDiv (Math_round (jsMul (jsMul (jsDiv (doubleOfInt c) (doubleOfInt t))
                                       (Finite 100)) (Finite 10))) (Finite 10) = Finite 0"
    proof -
      have "doubleOfInt c = Finite 0"
        by (simp add: True doubleOfInt_def)
      moreover have "\<lfloor>(1::rat) / 2\<rfloor> = 0"
        by (rule floor_unique) simp_all
      ultimately show ?thesis
        using tnz by (simp add: dt)
    qed
    moreover have "roundDouble (of_int 0 / 10) = Finite 0"
      by simp
    ultimately show ?thesis
      using True by (intro exI[of _ 0] exI[of _ "0::rat"]) simp
  next
    case False
    then have c1: "1 \<le> c"
      using c by simp
    define g :: rat where "g = 1 / of_int t"
    define x0 :: rat where "x0 = of_int c / of_int t"
    have g: "0 < g" "1 / 2 ^ 32 \<le> g" "g \<le> 1"
      using t by (simp_all add: g_def field_simps)
    have x0g: "x0 = of_int c * g"
      by (simp add: x0_def g_def)
    have "of_int 1 * g \<le> of_int c * g"
      using c1 g(1) by (intro mult_right_mono) simp_all
    then have x0_lo: "g \<le> x0"
      by (simp add: x0g)
    have "of_int c * g \<le> 2 ^ 32 * g"
      using c g(1) by (intro mult_right_mono) simp_all
    then have x0_hi: "x0 \<le> 2 ^ 32 * g"
      by (simp add: x0g)
    have "\<exists>r. roundDouble x0 = Finite r \<and> x0 - x0 / 2 ^ 53 \<le> r \<and> r \<le> x0 + x0 / 2 ^ 53"
      using x0_lo x0_hi g by (intro roundDouble_range) simp_all
    then obtain q1 where q1: "roundDouble x0 = Finite q1"
        "x0 - x0 / 2 ^ 53 \<le> q1" "q1 \<le> x0 + x0 / 2 ^ 53"
      by blast
    have "\<exists>r. roundDouble (q1 * 100) = Finite r
            \<and> q1 * 100 - q1 * 100 / 2 ^ 53 \<le> r \<and> r \<le> q1 * 100 + q1 * 100 / 2 ^ 53"
      using x0_lo x0_hi g q1(2,3) by (intro roundDouble_range) simp_all
    then obtain q2 where q2: "roundDouble (q1 * 100) = Finite q2"
        "q1 * 100 - q1 * 100 / 2 ^ 53 \<le> q2" "q2 \<le> q1 * 100 + q1 * 100 / 2 ^ 53"
      by blast
    have "\<exists>r. roundDouble (q2 * 10) = Finite r
            \<and> q2 * 10 - q2 * 10 / 2 ^ 53 \<le> r \<and> r \<le> q2 * 10 + q2 * 10 / 2 ^ 53"
      using x0_lo x0_hi g q1(2,3) q2(2,3) by (intro roundDouble_range) simp_all
    then obtain q3 where q3: "roundDouble (q2 * 10) = Finite q3"
        "q2 * 10 - q2 * 10 / 2 ^ 53 \<le> q3" "q3 \<le> q2 * 10 + q2 * 10 / 2 ^ 53"
      by blast
    have err: "1000 * x0 - 4000 * x0 / 2 ^ 53 \<le> q3" "q3 \<le> 1000 * x0 + 4000 * x0 / 2 ^ 53"
      using q1(2,3) q2(2,3) q3(2,3) x0_lo g(1) by simp_all
    have q3_pos: "0 < q3"
      using err(1) x0_lo g(1) by simp
    define k where "k = \<lfloor>q3 + 1 / 2\<rfloor>"
    have k: "of_int k \<le> q3 + 1 / 2" "q3 + 1 / 2 < of_int k + 1"
      unfolding k_def by linarith+
    have k0: "0 \<le> k"
      using q3_pos by (simp add: k_def)
    have half: "1 / (2 * of_int t) = g / 2"
      by (simp add: g_def)
    have up: "of_int k \<le> 1000 * x0 + 1 / 2"
    proof (rule ccontr)
      assume "\<not> of_int k \<le> 1000 * x0 + 1 / 2"
      then have "1000 * x0 + 1 / 2 + g / 2 \<le> of_int k"
        using nearest_integer_gap_up[OF t(1), of c k] by (simp add: x0_def half)
      then show False
        using k(1) err x0_hi g(1) by simp
    qed
    have down: "1000 * x0 - 1 / 2 \<le> of_int k"
    proof (rule ccontr)
      assume "\<not> 1000 * x0 - 1 / 2 \<le> of_int k"
      then have "of_int k \<le> 1000 * x0 - 1 / 2 - g / 2"
        using nearest_integer_gap_down[OF t(1), of k c] by (simp add: x0_def half)
      then show False
        using k(2) err x0_hi g(1) by simp
    qed
    have "\<bar>of_int k / 10 - x0 * 100\<bar> \<le> 1 / 20"
      using up down by (intro abs_leI) linarith+
    then have near: "\<bar>(of_int k :: rat) / 10 - of_int c / of_int t * 100\<bar> \<le> 1 / 20"
      by (simp only: x0_def)
    have computed: "jsDiv (Math_round (jsMul (jsMul (jsDiv (doubleOfInt c) (doubleOfInt t))
                                       (Finite 100)) (Finite 10))) (Finite 10)
                    = roundDouble (of_int k / 10)"
      using tnz by (simp add: dc dt q1[unfolded x0_def] q2 q3 k_def)
    have "\<exists>r. roundDouble (of_int k / 10) = Finite r
               \<and> \<bar>r - of_int k / 10\<bar> \<le> of_int k / 10 / 2 ^ 53"
    proof (cases "k = 0")
      case True
      then show ?thesis by simp
    next
      case False
      then have "(1::rat) \<le> of_int k"
        using k0 by simp
      moreover have "(of_int k :: rat) < 2 ^ 60"
        using up x0_hi g by simp
      ultimately have "\<exists>r. roundDouble (of_int k / 10) = Finite r
          \<and> of_int k / 10 - of_int k / 10 / 2 ^ 53 \<le> r
          \<and> r \<le> of_int k / 10 + of_int k / 10 / 2 ^ 53"
        by (intro roundDouble_range) simp_all
      then obtain r where "roundDouble (of_int k / 10) = Finite r"
          "of_int k / 10 - of_int k / 10 / 2 ^ 53 \<le> r"
          "r \<le> of_int k / 10 + of_int k / 10 / 2 ^ 53"
        by blast
      then have "roundDouble (of_int k / 10) = Finite r
          \<and> \<bar>r - of_int k / 10\<bar> \<le> of_int k / 10 / 2 ^ 53"
        by (intro conjI abs_leI) linarith+
      then show ?thesis
        by (rule exI)
    qed
    then obtain r where r: "roundDouble (of_int k / 10) = Finite r"
        "\<bar>r - of_int k / 10\<bar> \<le> of_int k / 10 / 2 ^ 53"
      by blast
    show ?thesis
      using computed r near by (intro exI[of _ k] exI[of _ r]) simp
  qed
qed

lemma jsDiv_by_zero: "jsDiv x (doubleOfInt 0) \<in> {NaN, PosInfinity, NegInfinity}"
  by (cases x) (simp_all add: doubleOfInt_def)

text \<open>
  C10. \<^verbatim>\<open>getAnalysisStats\<close> returns three zeros on a report with \<^verbatim>\<open>total_issues\<close> 0:
  the guard answers before any division, and a division by the double 0 never gives a
  finite number, it gives \<^verbatim>\<open>NaN\<close> or an infinity. On a report with a positive total,
  the counts being integers below \<open>2 ^ 32\<close> as the lengths of arrays are, each of the two
  percentages is rounded to one decimal place: it is the double nearest to \<open>k / 10\<close> for
  an integer \<open>k\<close>, and \<open>k / 10\<close> is at most 0.05 away from the exact percentage, the count
  divided by the total, times 100. When the exact percentage lies halfway between two
  tenths, either of them can be returned, since the quotient is rounded to a double
  before it is scaled: 23 of 80 gives 28.7.
\<close>

theorem getAnalysisStats_total:
  "(total_issues report = 0
      \<longrightarrow> getAnalysisStats report
          = \<lparr> criticalPercentage = Finite 0, highPriorityPercentage = Finite 0,
              avgConfidence = Finite 0 \<rparr>)
   \<and> (\<forall>x. jsDiv x (doubleOfInt 0) \<in> {NaN, PosInfinity, NegInfinity})
   \<and> (0 < total_issues report \<and> total_issues report < 2 ^ 32
        \<and> 0 \<le> critical_issues report \<and> critical_issues report < 2 ^ 32
      \<longrightarrow> (\<exists>k r. criticalPercentage (getAnalysisStats report) = Finite r
                 \<and> roundDouble (of_int k / 10) = Finite r
                 \<and> \<bar>(of_int k :: rat) / 10
                      - of_int (critical_issues report) / of_int (total_issues report) * 100\<bar>
                     \<le> 1 / 20
                 \<and> \<bar>r - of_int k / 10\<bar> \<le> of_int k / 10 / 2 ^ 53))
   \<and> (0 < total_issues report \<and> total_issues report < 2 ^ 32
        \<and> 0 \<le> high_priority_issues report \<and> high_priority_issues report < 2 ^ 32
      \<longrightarrow> (\<exists>k r. highPriorityPercentage (getAnalysisStats report) = Finite r
                 \<and> roundDouble (of_int k / 10) = Finite r
                 \<and> \<bar>(of_int k :: rat) / 10
                      - of_int (high_priority_issues report) / of_int (total_issues report) * 100\<bar>
                     \<le> 1 / 20
                 \<and> \<bar>r - of_int k / 10\<bar> \<le> of_int k / 10 / 2 ^ 53))"
proof -
  have zero: "total_issues report = 0
      \<longrightarrow> getAnalysisStats report
          = \<lparr> criticalPercentage = Finite 0, highPriorityPercentage = Finite 0,
              avgConfidence = Finite 0 \<rparr>"
    by (simp add: getAnalysisStats_def)
  have undivided: "\<forall>x. jsDiv x (doubleOfInt 0) \<in> {NaN, PosInfinity, NegInfinity}"
    using jsDiv_by_zero by blast
  have crit: "criticalPercentage (getAnalysisStats report)
      = jsDiv (Math_round (jsMul (jsMul (jsDiv (doubleOfInt (critical_issues report))
                                           (doubleOfInt (total_issues report)))
                                    (Finite 100)) (Finite 10))) (Finite 10)"
    if "0 < total_issues report"
    using that by (simp add: getAnalysisStats_def Let_def)
  have high: "highPriorityPercentage (getAnalysisStats report)
      = jsDiv (Math_round (jsMul (jsMul (jsDiv (doubleOfInt (high_priority_issues report))
                                           (doubleOfInt (total_issues report)))
                                    (Finite 100)) (Finite 10))) (Finite 10)"
    if "0 < total_issues report"
    using that by (simp add: getAnalysisStats_def Let_def)
  have critical: "0 < total_issues report \<and> total_issues report < 2 ^ 32
        \<and> 0 \<le> critical_issues report \<and> critical_issues report < 2 ^ 32
      \<longrightarrow> (\<exists>k r. criticalPercentage (getAnalysisStats report) = Finite r
                 \<and> roundDouble (of_int k / 10) = Finite r
                 \<and> \<bar>(of_int k :: rat) / 10
                      - of_int (critical_issues report) / of_int (total_issues report) * 100\<bar>
                     \<le> 1 / 20
                 \<and> \<bar>r - of_int k / 10\<bar> \<le> of_int k / 10 / 2 ^ 53)"
  proof (intro impI, elim conjE)
    assume a: "0 < total_issues report" "total_issues report < 2 ^ 32"
      "0 \<le> critical_issues report" "critical_issues report < 2 ^ 32"
    show "\<exists>k r. criticalPercentage (getAnalysisStats report) = Finite r
                 \<and> roundDouble (of_int k / 10) = Finite r
                 \<and> \<bar>(of_int k :: rat) / 10
                      - of_int (critical_issues report) / of_int (total_issues report) * 100\<bar>
                     \<le> 1 / 20
                 \<and> \<bar>r - of_int k / 10\<bar> \<le> of_int k / 10 / 2 ^ 53"
      unfolding crit[OF a(1)] by (rule percentage_rounded[OF a(3) a(4) a(1) a(2)])
  qed
  have highPriority: "0 < total_issues report \<and> total_issues report < 2 ^ 32
        \<and> 0 \<le> high_priority_issues report \<and> high_priority_issues report < 2 ^ 32
      \<longrightarrow> (\<exists>k r. highPriorityPercentage (getAnalysisStats report) = Finite r
                 \<and> roundDouble (of_int k / 10) = Finite r
                 \<and> \<bar>(of_int k :: rat) / 10
                      - of_int (high_priority_issues report) / of_int (total_issues report) * 100\<bar>
                     \<le> 1 / 20
                 \<and> \<bar>r - of_int k / 10\<bar> \<le> of_int k / 10 / 2 ^ 53)"
  proof (intro impI, elim conjE)
    assume a: "0 < total_issues report" "total_issues report < 2 ^ 32"
      "0 \<le> high_priority_issues report" "high_priority_issues report < 2 ^ 32"
    show "\<exists>k r. highPriorityPercentage (getAnalysisStats report) = Finite r
                 \<and> roundDouble (of_int k / 10) = Finite r
                 \<and> \<bar>(of_int k :: rat) / 10
                      - of_int (high_priority_issues report) / of_int (total_issues report) * 100\<bar>
                     \<le> 1 / 20
                 \<and> \<bar>r - of_int k / 10\<bar> \<le> of_int k / 10 / 2 ^ 53"
      unfolding high[OF a(1)] by (rule percentage_rounded[OF a(3) a(4) a(1) a(2)])
  qed
  show ?thesis
    by (rule conjI[OF zero conjI[OF undivided conjI[OF critical highPriority]]])
qed

lemma percentage_23_of_80:
  "jsDiv (Math_round (jsMul (jsMul (jsDiv (doubleOfInt 23) (doubleOfInt 80)) (Finite 100))
                              (Finite 10))) (Finite 10)
     = Finite (8078331831595827 / 281474976710656)
   \<and> roundDouble (287 / 10) = Finite (8078331831595827 / 281474976710656)"
proof -
  have c: "doubleOfInt 23 = Finite 23" and t: "doubleOfInt 80 = Finite 80"
    using doubleOfInt_exact[of 23] doubleOfInt_exact[of 80] by simp_all
  have q1: "roundDouble (23 / 80) = Finite (2589569785738035 / 9007199254740992)"
    using roundDouble_nearest[of "- 2" "23 / 80" 5179139571476070]
    by (simp add: power_int_minus_divide)
  have q2: "roundDouble (2589569785738035 / 9007199254740992 * 100)
              = Finite (8092405580431359 / 281474976710656)"
    using roundDouble_nearest[of 4 "2589569785738035 / 9007199254740992 * 100" 8092405580431359]
    by (simp add: power_int_minus_divide)
  have q3: "roundDouble (8092405580431359 / 281474976710656 * 10)
              = Finite (5057753487769599 / 17592186044416)"
    using roundDouble_nearest[of 8 "8092405580431359 / 281474976710656 * 10" 5057753487769599]
    by (simp add: power_int_minus_divide)
  have k: "\<lfloor>(5057753487769599 / 17592186044416 :: rat) + 1 / 2\<rfloor> = 287"
    by (rule floor_unique) simp_all
  have r: "roundDouble (287 / 10) = Finite (8078331831595827 / 281474976710656)"
    using roundDouble_nearest[of 4 "287 / 10" 8078331831595827]
    by (simp add: power_int_minus_divide)
  have s1: "jsDiv (doubleOfInt 23) (doubleOfInt 80) = Finite (2589569785738035 / 9007199254740992)"
    by (simp add: c t q1)
  have s2: "jsMul (Finite (2589569785738035 / 9007199254740992)) (Finite 100) = Finite (8092405580431359 / 281474976710656)"
    by (simp only: jsMul.simps q2)
  have s3: "jsMul (Finite (8092405580431359 / 281474976710656)) (Finite 10) = Finite (5057753487769599 / 17592186044416)"
    by (simp only: jsMul.simps q3)
  have s4: "Math_round (Finite (5057753487769599 / 17592186044416)) = Finite 287"
    by (simp only: Math_round.simps k of_int_numeral)
  have "jsDiv (Finite 287) (Finite 10) = roundDouble (287 / 10)"
    by simp
  then have s5: "jsDiv (Finite 287) (Finite 10) = Finite (8078331831595827 / 281474976710656)"
    using r by (rule trans)
  show ?thesis
    by (simp only: s1 s2 s3 s4 s5 r simp_thms)
qed

lemma percentage_41_of_80:
  "jsDiv (Math_round (jsMul (jsMul (jsDiv (doubleOfInt 41) (doubleOfInt 80)) (Finite 100))
                              (Finite 10))) (Finite 10)
     = Finite (3602879701896397 / 70368744177664)
   \<and> roundDouble (512 / 10) = Finite (3602879701896397 / 70368744177664)"
proof -
  have c: "doubleOfInt 41 = Finite 41" and t: "doubleOfInt 80 = Finite 80"
    using doubleOfInt_exact[of 41] doubleOfInt_exact[of 80] by simp_all
  have q1: "roundDouble (41 / 80) = Finite (2308094809027379 / 4503599627370496)"
    using roundDouble_nearest[of "- 1" "41 / 80" 4616189618054758]
    by (simp add: power_int_minus_divide)
  have q2: "roundDouble (2308094809027379 / 4503599627370496 * 100)
              = Finite (7212796278210559 / 140737488355328)"
    using roundDouble_nearest[of 5 "2308094809027379 / 4503599627370496 * 100" 7212796278210559]
    by (simp add: power_int_minus_divide)
  have q3: "roundDouble (7212796278210559 / 140737488355328 * 10)
              = Finite (4507997673881599 / 8796093022208)"
    using roundDouble_nearest[of 9 "7212796278210559 / 140737488355328 * 10" 4507997673881599]
    by (simp add: power_int_minus_divide)
  have k: "\<lfloor>(4507997673881599 / 8796093022208 :: rat) + 1 / 2\<rfloor> = 512"
    by (rule floor_unique) simp_all
  have r: "roundDouble (512 / 10) = Finite (3602879701896397 / 70368744177664)"
    using roundDouble_nearest[of 5 "512 / 10" 7205759403792794]
    by (simp add: power_int_minus_divide)
  have s1: "jsDiv (doubleOfInt 41) (doubleOfInt 80) = Finite (2308094809027379 / 4503599627370496)"
    by (simp add: c t q1)
  have s2: "jsMul (Finite (2308094809027379 / 4503599627370496)) (Finite 100) = Finite (7212796278210559 / 140737488355328)"
    by (simp only: jsMul.simps q2)
  have s3: "jsMul (Finite (7212796278210559 / 140737488355328)) (Finite 10) = Finite (4507997673881599 / 8796093022208)"
    by (simp only: jsMul.simps q3)
  have s4: "Math_round (Finite (4507997673881599 / 8796093022208)) = Finite 512"
    by (simp only: Math_round.simps k of_int_numeral)
  have "jsDiv (Finite 512) (Finite 10) = roundDouble (512 / 10)"
    by simp
  then have s5: "jsDiv (Finite 512) (Finite 10) = Finite (3602879701896397 / 70368744177664)"
    using r by (rule trans)
  show ?thesis
    by (simp only: s1 s2 s3 s4 s5 r simp_thms)
qed

text \<open>
  A report of 80 issues with 23 critical and 41 high-priority ones: the exact percentages
  28.75 and 51.25 lie halfway between two tenths, and the doubles returned are those of
  28.7 and 51.2.
\<close>

theorem getAnalysisStats_total_witness:
  "total_issues statsReport = 80 \<and> critical_issues statsReport = 23
   \<and> high_priority_issues statsReport = 41
   \<and> (\<exists>k r. criticalPercentage (getAnalysisStats statsReport) = Finite r
          \<and> roundDouble (of_int k / 10) = Finite r
          \<and> \<bar>(of_int k :: rat) / 10 - 23 / 80 * 100\<bar> \<le> 1 / 20
          \<and> \<bar>r - of_int k / 10\<bar> \<le> of_int k / 10 / 2 ^ 53)
   \<and> (\<exists>k r. highPriorityPercentage (getAnalysisStats statsReport) = Finite r
          \<and> roundDouble (of_int k / 10) = Finite r
          \<and> \<bar>(of_int k :: rat) / 10 - 41 / 80 * 100\<bar> \<le> 1 / 20
          \<and> \<bar>r - of_int k / 10\<bar> \<le> of_int k / 10 / 2 ^ 53)
   \<and> criticalPercentage (getAnalysisStats statsReport)
       = Finite (8078331831595827 / 281474976710656)
   \<and> roundDouble (287 / 10) = Finite (8078331831595827 / 281474976710656)
   \<and> highPriorityPercentage (getAnalysisStats statsReport)
       = Finite (3602879701896397 / 70368744177664)
   \<and> roundDouble (512 / 10) = Finite (3602879701896397 / 70368744177664)"
proof -
  have total: "total_issues statsReport = 80"
    by (simp add: statsReport_def createReport_def)
  have critical: "critical_issues statsReport = 23"
    by code_simp
  have high: "high_priority_issues statsReport = 41"
    by code_simp
  note rounded = getAnalysisStats_total[of statsReport, unfolded total critical high]
  have first: "\<exists>k r. criticalPercentage (getAnalysisStats statsReport) = Finite r
          \<and> roundDouble (of_int k / 10) = Finite r
          \<and> \<bar>(of_int k :: rat) / 10 - 23 / 80 * 100\<bar> \<le> 1 / 20
          \<and> \<bar>r - of_int k / 10\<bar> \<le> of_int k / 10 / 2 ^ 53"
    using rounded by simp
  have second: "\<exists>k r. highPriorityPercentage (getAnalysisStats statsReport) = Finite r
          \<and> roundDouble (of_int k / 10) = Finite r
          \<and> \<bar>(of_int k :: rat) / 10 - 41 / 80 * 100\<bar> \<le> 1 / 20
          \<and> \<bar>r - of_int k / 10\<bar> \<le> of_int k / 10 / 2 ^ 53"
    using rounded by simp
  have "criticalPercentage (getAnalysisStats statsReport)
       = Finite (8078331831595827 / 281474976710656)"
    using percentage_23_of_80 by (simp add: getAnalysisStats_def Let_def total critical)
  moreover have "highPriorityPercentage (getAnalysisStats statsReport)
       = Finite (3602879701896397 / 70368744177664)"
    using percentage_41_of_80 by (simp add: getAnalysisStats_def Let_def total high)
  ultimately show ?thesis
    using total critical high first second percentage_23_of_80 percentage_41_of_80
    by (simp only: simp_thms)
qed

end
